theory Spec2Isabelle
  imports Main "HOL-Library.Word" "HOL-Library.Multiset"
begin

section \<open>The GCE group plugin (plugin/group/plugin.go)\<close>

text \<open>
  The group plugin keeps a registry \<open>groups\<close> of watched groups and drives the Google
  Compute API through the interface \<open>gcloud.API\<close>. The model below follows the Go source
  function by function. Mutation of the receiver \<open>p\<close> is explicit state passing; the
  calls made on \<open>p.API\<close> are appended to a log, so that theorems can speak about which
  driver operations were issued and in which order. Go's \<open>(value, error)\<close> results are
  sums with the error on the left.
\<close>

subsection \<open>Data model\<close>

text \<open>
  Errors. The plugin builds four errors itself (\<open>errors.New\<close>, \<open>fmt.Errorf\<close>); every
  other error is a value handed back by a collaborator (the group-spec parser, a flavor
  plugin, the instance-properties parser, the API) and is returned as it is:
  \<open>Collaborator e\<close> stands for that very value \<open>e\<close>.
\<close>

type_synonym ext_error = string

datatype error =
    BlankGroupID
  | LogicalIDsNotSupported
  | AllocationNotPositive
  | FlavorPluginNotFound string ext_error
  | NotWatched string
  | Collaborator ext_error

text \<open>
  \<open>types.AllocationMethod\<close>: \<open>Size\<close> is a Go \<open>uint\<close> (64 bits), \<open>LogicalIDs\<close> a slice.
  A Go slice is either \<open>nil\<close> or a (possibly empty) sequence, and the plugin compares
  \<open>LogicalIDs\<close> with \<open>nil\<close>, so the slice is an option: \<open>None\<close> is \<open>nil\<close>.
\<close>

record allocationMethod =
  Size :: "64 word"
  LogicalIDs :: "string list option"

record pluginSpec =
  Plugin :: string
  plugin_Properties :: string

record typesSpec =
  Instance :: pluginSpec
  Flavor :: pluginSpec
  Allocation :: allocationMethod

record groupSpec =
  ID :: string
  group_Properties :: string

record instanceSpec =
  instance_Properties :: string
  instance_Tags :: "(string \<times> string) list"

text \<open>
  \<open>instance_types.Properties\<close>. The declaration of the struct is not in
  \<open>plugin.go\<close>: the record names the eleven fields that the group plugin reads, and
  whatever else the struct holds is the record's extension (the type variable of
  \<open>'a properties_scheme\<close>), which \<open>reflect.DeepEqual\<close> compares along with the
  rest. The two slices are options because \<open>reflect.DeepEqual\<close> tells a \<open>nil\<close> slice
  from an empty one. So equality of two such records in HOL is \<open>reflect.DeepEqual\<close>
  on the Go structs: every field, the order of the slices included.
\<close>

record properties =
  NamePrefix :: string
  Description :: string
  MachineType :: string
  Network :: string
  Tags :: "string list option"
  DiskSizeMb :: "64 word"
  DiskImage :: string
  DiskType :: string
  Scopes :: "string list option"
  TargetPool :: string
  Preemptible :: bool

record 'a settings =
  spec :: typesSpec
  groupSpec :: groupSpec
  instanceSpec :: instanceSpec
  instanceProperties :: "'a properties_scheme"
  currentTemplate :: "64 word"
  createdTemplates :: "string list"

text \<open>The argument structs of the API: \<open>gcloud.InstanceSettings\<close> and
  \<open>gcloud.InstanceManagerSettings\<close>.\<close>

record instanceSettings =
  tmpl_Description :: string
  tmpl_MachineType :: string
  tmpl_Network :: string
  tmpl_Tags :: "string list option"
  tmpl_DiskSizeMb :: "64 word"
  tmpl_DiskImage :: string
  tmpl_DiskType :: string
  tmpl_Scopes :: "string list option"
  tmpl_Preemptible :: bool
  AutoDeleteDisk :: bool
  ReuseExistingDisk :: bool
  MetaData :: "(string \<times> string) list"

record instanceManagerSettings =
  TemplateName :: string
  TargetSize :: int
  mgr_Description :: string
  mgr_TargetPool :: string
  BaseInstanceName :: string

text \<open>What the API answers to the two reading calls: a member of a managed group
  (its \<open>Instance\<close> URL) and an instance (its name and metadata items).\<close>

record managedInstance =
  member_Instance :: string

record computeInstance =
  Name :: string
  Items :: "(string \<times> string) list"

record instanceDescription =
  desc_ID :: string
  desc_Tags :: "(string \<times> string) list"

record groupDescription =
  Converged :: bool
  Instances :: "instanceDescription list"

text \<open>The methods of \<open>gcloud.API\<close> that the plugin calls, with their arguments.\<close>

datatype api_call =
    CreateInstanceTemplate string instanceSettings
  | CreateInstanceGroupManager string instanceManagerSettings
  | SetInstanceTemplate string string
  | ResizeInstanceGroupManager string int
  | DeleteInstanceGroupManager string
  | DeleteInstanceTemplate string
  | ListInstanceGroupInstances string
  | GetInstance string

text \<open>
  The driver is outside this repository. It is a parameter: any deterministic driver,
  whose answer to a call may depend on every call made before (the first argument).
  \<open>status\<close> answers the six methods that return only an error.
\<close>

record driver =
  status :: "api_call list \<Rightarrow> api_call \<Rightarrow> ext_error option"
  listing :: "api_call list \<Rightarrow> string \<Rightarrow> ext_error + managedInstance list"
  fetched :: "api_call list \<Rightarrow> string \<Rightarrow> ext_error + computeInstance"

text \<open>A flavor plugin (\<open>Validate\<close> and \<open>Prepare\<close>) as found by the lookup function.\<close>

record flavorPlugin =
  Validate :: "string \<Rightarrow> allocationMethod \<Rightarrow> ext_error option"
  Prepare :: "string \<Rightarrow> instanceSpec \<Rightarrow> allocationMethod \<Rightarrow> ext_error + instanceSpec"

text \<open>The plugin struct; \<open>calls\<close> is the log of the calls made on \<open>API\<close> so far.\<close>

record 'a plugin =
  API :: driver
  flavorPlugins :: "string \<Rightarrow> ext_error + flavorPlugin"
  groups :: "string \<rightharpoonup> 'a settings"
  calls :: "api_call list"

text \<open>
  Library functions of other packages that the plugin calls, as parameters:
  \<open>types.ParseProperties\<close>, \<open>instance_types.ParseProperties\<close>,
  \<open>instance_types.ParseMetadata\<close>, \<open>gcloud.TagsToMetaData\<close> and
  \<open>gcloud.MetaDataToTags\<close>.
\<close>

record 'a lib =
  ParseProperties :: "groupSpec \<Rightarrow> ext_error + typesSpec"
  ParseInstanceProperties :: "string \<Rightarrow> ext_error + 'a properties_scheme"
  ParseMetadata :: "instanceSpec \<Rightarrow> ext_error + (string \<times> string) list"
  TagsToMetaData :: "(string \<times> string) list \<Rightarrow> (string \<times> string) list"
  MetaDataToTags :: "(string \<times> string) list \<Rightarrow> (string \<times> string) list"

subsection \<open>Formatting\<close>

text \<open>
  Integers. \<open>Allocation.Size\<close> is a \<open>uint\<close> and \<open>currentTemplate\<close> an \<open>int\<close>, both
  64 bits wide and both \<open>64 word\<close> here; \<open>unat\<close> reads the first, \<open>sint\<close> the second.
  The conversion \<open>int64(size)\<close> of the source keeps the 64 bits and reads them as two's
  complement. The values of type \<open>int64\<close> handed to the API and to \<open>fmt.Sprintf\<close>
  are the integers so obtained.
\<close>

definition int64 :: "64 word \<Rightarrow> int" where
  "int64 w = sint w"

text \<open>\<open>%d\<close> of \<open>fmt.Sprintf\<close>, and \<open>strings.Join\<close>.\<close>

fun digits :: "nat \<Rightarrow> string" where
  "digits n =
     (if n < 10 then [''0123456789'' ! n]
      else digits (n div 10) @ [''0123456789'' ! (n mod 10)])"

declare digits.simps [simp del]

definition Sprintf_d :: "int \<Rightarrow> string" where
  "Sprintf_d i = (if i < 0 then CHR ''-'' # digits (nat (- i)) else digits (nat i))"

fun Join :: "string list \<Rightarrow> string \<Rightarrow> string" where
  "Join [] sep = []"
| "Join [x] sep = x"
| "Join (x # y # ys) sep = x @ sep @ Join (y # ys) sep"

text \<open>\<open>fmt.Sprintf("%s-%d", name, version)\<close>, the name of a template.\<close>

definition templateNameOf :: "string \<Rightarrow> 64 word \<Rightarrow> string" where
  "templateNameOf name version = name @ ''-'' @ Sprintf_d (sint version)"

text \<open>\<open>strings.Split(url, "/")\<close> and the function \<open>last\<close> of the source.\<close>

fun Split :: "string \<Rightarrow> char \<Rightarrow> string list" where
  "Split [] sep = [[]]"
| "Split (c # cs) sep =
     (if c = sep then [] # Split cs sep
      else (case Split cs sep of [] \<Rightarrow> [[c]] | part # parts \<Rightarrow> (c # part) # parts))"

definition last_part :: "string \<Rightarrow> string" where
  "last_part url = (let parts = Split url CHR ''/'' in parts ! (length parts - 1))"

subsection \<open>validate\<close>

definition validate :: "'a lib \<Rightarrow> 'a plugin \<Rightarrow> groupSpec \<Rightarrow> error + 'a settings" where
  "validate lib p gspec =
     (if ID gspec = [] then Inl BlankGroupID
      else (case ParseProperties lib gspec of
        Inl err \<Rightarrow> Inl (Collaborator err)
      | Inr parsed \<Rightarrow>
          if LogicalIDs (Allocation parsed) \<noteq> None then Inl LogicalIDsNotSupported
          else if Size (Allocation parsed) \<le> 0 then Inl AllocationNotPositive
          else (case flavorPlugins p (Plugin (Flavor parsed)) of
            Inl err \<Rightarrow> Inl (FlavorPluginNotFound (Plugin (Flavor parsed)) err)
          | Inr flavorPlugin \<Rightarrow>
              (case Validate flavorPlugin (plugin_Properties (Flavor parsed)) (Allocation parsed) of
                 Some err \<Rightarrow> Inl (Collaborator err)
               | None \<Rightarrow>
                   (case Prepare flavorPlugin (plugin_Properties (Flavor parsed))
                           \<lparr>instance_Properties = plugin_Properties (Instance parsed),
                            instance_Tags = []\<rparr>
                           (Allocation parsed) of
                      Inl err \<Rightarrow> Inl (Collaborator err)
                    | Inr prepared \<Rightarrow>
                        (case ParseInstanceProperties lib (instance_Properties prepared) of
                           Inl err \<Rightarrow> Inl (Collaborator err)
                         | Inr props \<Rightarrow>
                             Inr \<lparr>spec = parsed,
                                  groupSpec = gspec,
                                  instanceSpec = prepared,
                                  instanceProperties = props,
                                  currentTemplate = 1,
                                  createdTemplates = []\<rparr>))))))"

subsection \<open>Calling the API\<close>

text \<open>A call of one of the error-returning methods: the driver answers, the call is
  logged. Steps that may fail are chained as the source chains them, each failure
  returning at once.\<close>

type_synonym 'a step = "'a plugin \<Rightarrow> error option \<times> 'a plugin"

definition API_call :: "api_call \<Rightarrow> 'a step" where
  "API_call c p =
     (map_option Collaborator (status (API p) (calls p) c), p\<lparr>calls := calls p @ [c]\<rparr>)"

definition API_ListInstanceGroupInstances ::
  "string \<Rightarrow> 'a plugin \<Rightarrow> (error + managedInstance list) \<times> 'a plugin" where
  "API_ListInstanceGroupInstances name p =
     ((case listing (API p) (calls p) name of
         Inl err \<Rightarrow> Inl (Collaborator err)
       | Inr members \<Rightarrow> Inr members),
      p\<lparr>calls := calls p @ [ListInstanceGroupInstances name]\<rparr>)"

definition API_GetInstance :: "string \<Rightarrow> 'a plugin \<Rightarrow> (error + computeInstance) \<times> 'a plugin" where
  "API_GetInstance name p =
     ((case fetched (API p) (calls p) name of
         Inl err \<Rightarrow> Inl (Collaborator err)
       | Inr inst \<Rightarrow> Inr inst),
      p\<lparr>calls := calls p @ [GetInstance name]\<rparr>)"

definition andThen :: "'a step \<Rightarrow> 'a step \<Rightarrow> 'a step" where
  "andThen f g p = (case f p of (Some err, p') \<Rightarrow> (Some err, p') | (None, p') \<Rightarrow> g p')"

definition guarded :: "bool \<Rightarrow> 'a step \<Rightarrow> 'a step" where
  "guarded b f p = (if b then f p else (None, p))"

subsection \<open>CommitGroup\<close>

text \<open>The first half of \<open>CommitGroup\<close> (lines 122 to 148): the settings to work with,
  the operations to report and the four flags.\<close>

record 'a decision =
  d_settings :: "'a settings"
  operations :: "string list"
  createManager :: bool
  createTemplate :: bool
  updateManager :: bool
  resize :: bool

definition CommitGroup_decide :: "'a plugin \<Rightarrow> groupSpec \<Rightarrow> 'a settings \<Rightarrow> bool \<Rightarrow> 'a decision" where
  "CommitGroup_decide p config newSettings pretend =
     (let targetSize = int64 (Size (Allocation (spec newSettings))) in
      case groups p (ID config) of
        None \<Rightarrow>
          \<lparr>d_settings = newSettings,
           operations = [''Managing '' @ Sprintf_d targetSize @ '' instances''],
           createManager = True,
           createTemplate = True,
           updateManager = False,
           resize = False\<rparr>
      | Some settings \<Rightarrow>
          (let changed = (instanceProperties settings \<noteq> instanceProperties newSettings);
               scaled = (Size (Allocation (spec settings)) \<noteq> Size (Allocation (spec newSettings)))
           in \<lparr>d_settings =
                  (if changed \<and> \<not> pretend
                   then settings\<lparr>currentTemplate := currentTemplate settings + 1\<rparr>
                   else settings),
                operations =
                  (if changed then [''Updating instance template''] else []) @
                  (if scaled then [''Scaling group to '' @ Sprintf_d targetSize @ '' instance.'']
                   else []),
                createManager = False,
                createTemplate = changed,
                updateManager = False,
                resize = scaled\<rparr>))"

definition templateSettings :: "'a lib \<Rightarrow> 'a settings \<Rightarrow> (string \<times> string) list \<Rightarrow> instanceSettings" where
  "templateSettings lib settings metadata =
     \<lparr>tmpl_Description = Description (instanceProperties settings),
      tmpl_MachineType = MachineType (instanceProperties settings),
      tmpl_Network = Network (instanceProperties settings),
      tmpl_Tags = Tags (instanceProperties settings),
      tmpl_DiskSizeMb = DiskSizeMb (instanceProperties settings),
      tmpl_DiskImage = DiskImage (instanceProperties settings),
      tmpl_DiskType = DiskType (instanceProperties settings),
      tmpl_Scopes = Scopes (instanceProperties settings),
      tmpl_Preemptible = Preemptible (instanceProperties settings),
      AutoDeleteDisk = True,
      ReuseExistingDisk = False,
      MetaData = TagsToMetaData lib metadata\<rparr>"

definition managerSettings :: "'a settings \<Rightarrow> string \<Rightarrow> int \<Rightarrow> instanceManagerSettings" where
  "managerSettings settings name targetSize =
     \<lparr>TemplateName = templateNameOf name (currentTemplate settings),
      TargetSize = targetSize,
      mgr_Description = Description (instanceProperties settings),
      mgr_TargetPool = TargetPool (instanceProperties settings),
      BaseInstanceName = NamePrefix (instanceProperties settings)\<rparr>"

definition CommitGroup_createTemplate :: "'a lib \<Rightarrow> 'a settings \<Rightarrow> string \<Rightarrow> 'a step" where
  "CommitGroup_createTemplate lib settings templateName p =
     (case ParseMetadata lib (instanceSpec settings) of
        Inl err \<Rightarrow> (Some (Collaborator err), p)
      | Inr metadata \<Rightarrow>
          API_call (CreateInstanceTemplate templateName (templateSettings lib settings metadata)) p)"

text \<open>The second half (lines 154 to 203), run only when \<open>pretend\<close> is false.\<close>

definition CommitGroup_apply ::
  "'a lib \<Rightarrow> 'a decision \<Rightarrow> 'a settings \<Rightarrow> string \<Rightarrow> string \<Rightarrow> int \<Rightarrow> 'a step" where
  "CommitGroup_apply lib d settings name templateName targetSize =
     andThen (guarded (createTemplate d) (CommitGroup_createTemplate lib settings templateName))
    (andThen (guarded (createManager d)
                (API_call (CreateInstanceGroupManager name (managerSettings settings name targetSize))))
    (andThen (guarded (updateManager d) (API_call (SetInstanceTemplate name templateName)))
             (guarded (resize d) (API_call (ResizeInstanceGroupManager name targetSize)))))"

definition CommitGroup :: "'a lib \<Rightarrow> groupSpec \<Rightarrow> bool \<Rightarrow> 'a plugin \<Rightarrow> (error + string) \<times> 'a plugin" where
  "CommitGroup lib config pretend p =
     (case validate lib p config of
        Inl err \<Rightarrow> (Inl err, p)
      | Inr newSettings \<Rightarrow>
          (let name = ID config;
               targetSize = int64 (Size (Allocation (spec newSettings)));
               d = CommitGroup_decide p config newSettings pretend
           in if \<not> pretend then
                (let templateName = templateNameOf name (currentTemplate (d_settings d));
                     settings = (d_settings d)
                       \<lparr>createdTemplates := createdTemplates (d_settings d) @ [templateName]\<rparr>
                 in case CommitGroup_apply lib d settings name templateName targetSize p of
                      (Some err, p') \<Rightarrow> (Inl err, p')
                    | (None, p') \<Rightarrow>
                        (Inr (Join (operations d) [CHR 0x0A]),
                         p'\<lparr>groups := (groups p')(ID config \<mapsto> settings)\<rparr>))
              else
                (Inr (Join (operations d) [CHR 0x0A]),
                 p\<lparr>groups := (groups p)(ID config \<mapsto> d_settings d)\<rparr>)))"

subsection \<open>FreeGroup, DescribeGroup, DestroyGroup\<close>

definition FreeGroup :: "string \<Rightarrow> 'a step" where
  "FreeGroup gid p =
     (case groups p gid of
        None \<Rightarrow> (Some (NotWatched gid), p)
      | Some _ \<Rightarrow> (None, p\<lparr>groups := (groups p)(gid := None)\<rparr>))"

text \<open>The loop of \<open>DescribeGroup\<close> over the members of the group.\<close>

fun DescribeGroup_instances ::
  "'a lib \<Rightarrow> managedInstance list \<Rightarrow> instanceDescription list \<Rightarrow> 'a plugin \<Rightarrow>
   (error + instanceDescription list) \<times> 'a plugin" where
  "DescribeGroup_instances lib [] instances p = (Inr instances, p)"
| "DescribeGroup_instances lib (grpInst # rest) instances p =
     (case API_GetInstance (last_part (member_Instance grpInst)) p of
        (Inl err, p') \<Rightarrow> (Inl err, p')
      | (Inr inst, p') \<Rightarrow>
          DescribeGroup_instances lib rest
            (instances @ [\<lparr>desc_ID = Name inst, desc_Tags = MetaDataToTags lib (Items inst)\<rparr>]) p')"

text \<open>\<open>len(instanceGroupInstances) == int(Size)\<close>: both sides are 64-bit integers.\<close>

definition DescribeGroup :: "'a lib \<Rightarrow> string \<Rightarrow> 'a plugin \<Rightarrow> (error + groupDescription) \<times> 'a plugin" where
  "DescribeGroup lib gid p =
     (case groups p gid of
        None \<Rightarrow> (Inl (NotWatched gid), p)
      | Some currentSettings \<Rightarrow>
          (case API_ListInstanceGroupInstances gid p of
             (Inl err, p') \<Rightarrow> (Inl err, p')
           | (Inr instanceGroupInstances, p') \<Rightarrow>
               (case DescribeGroup_instances lib instanceGroupInstances [] p' of
                  (Inl err, p'') \<Rightarrow> (Inl err, p'')
                | (Inr instances, p'') \<Rightarrow>
                    (Inr \<lparr>Converged =
                            ((word_of_nat (length instanceGroupInstances) :: 64 word) =
                             Size (Allocation (spec currentSettings))),
                          Instances = instances\<rparr>,
                     p''))))"

text \<open>The loop of \<open>DestroyGroup\<close> over the created templates.\<close>

fun DestroyGroup_templates :: "string list \<Rightarrow> 'a step" where
  "DestroyGroup_templates [] p = (None, p)"
| "DestroyGroup_templates (createdTemplate # rest) p =
     (case API_call (DeleteInstanceTemplate createdTemplate) p of
        (Some err, p') \<Rightarrow> (Some err, p')
      | (None, p') \<Rightarrow> DestroyGroup_templates rest p')"

definition DestroyGroup :: "string \<Rightarrow> 'a step" where
  "DestroyGroup gid p =
     (case groups p gid of
        None \<Rightarrow> (Some (NotWatched gid), p)
      | Some currentSettings \<Rightarrow>
          (case API_call (DeleteInstanceGroupManager gid) p of
             (Some err, p') \<Rightarrow> (Some err, p')
           | (None, p') \<Rightarrow>
               (case DestroyGroup_templates (createdTemplates currentSettings) p' of
                  (Some err, p'') \<Rightarrow> (Some err, p'')
                | (None, p'') \<Rightarrow> (None, p''\<lparr>groups := (groups p'')(gid := None)\<rparr>))))"

subsection \<open>The calls as lists\<close>

text \<open>Issuing a list of calls in order, stopping at the first that fails. The chains
  of calls in \<open>CommitGroup\<close> and \<open>DestroyGroup\<close> are of this form, which is how the
  theorems below describe them.\<close>

fun API_calls :: "api_call list \<Rightarrow> 'a step" where
  "API_calls [] p = (None, p)"
| "API_calls (c # cs) p =
     (case API_call c p of (Some err, p') \<Rightarrow> (Some err, p') | (None, p') \<Rightarrow> API_calls cs p')"

text \<open>The calls that a commit which is not a dry run sets out to make, in the order
  of the source, given the metadata parsed for the template.\<close>

definition CommitGroup_calls ::
  "'a lib \<Rightarrow> 'a decision \<Rightarrow> 'a settings \<Rightarrow> string \<Rightarrow> string \<Rightarrow> int \<Rightarrow>
   (string \<times> string) list \<Rightarrow> api_call list" where
  "CommitGroup_calls lib d settings name templateName targetSize metadata =
     (if createTemplate d
      then [CreateInstanceTemplate templateName (templateSettings lib settings metadata)]
      else []) @
     (if createManager d
      then [CreateInstanceGroupManager name (managerSettings settings name targetSize)]
      else []) @
     (if updateManager d then [SetInstanceTemplate name templateName] else []) @
     (if resize d then [ResizeInstanceGroupManager name targetSize] else [])"

text \<open>The calls of \<open>DestroyGroup\<close> on a watched group, in order.\<close>

definition DestroyGroup_calls :: "string \<Rightarrow> 'a settings \<Rightarrow> api_call list" where
  "DestroyGroup_calls gid currentSettings =
     DeleteInstanceGroupManager gid # map DeleteInstanceTemplate (createdTemplates currentSettings)"

text \<open>For a commit that is not a dry run and whose spec validates: the settings it
  works with once the template name is appended (lines 151 and 152), and the calls it
  sets out to make.\<close>

definition CommitGroup_settings :: "'a plugin \<Rightarrow> groupSpec \<Rightarrow> 'a settings \<Rightarrow> 'a settings" where
  "CommitGroup_settings p config newSettings =
     (let settings = d_settings (CommitGroup_decide p config newSettings False)
      in settings\<lparr>createdTemplates := createdTemplates settings @
           [templateNameOf (ID config) (currentTemplate settings)]\<rparr>)"

definition CommitGroup_plan ::
  "'a lib \<Rightarrow> 'a plugin \<Rightarrow> groupSpec \<Rightarrow> 'a settings \<Rightarrow> (string \<times> string) list \<Rightarrow> api_call list" where
  "CommitGroup_plan lib p config newSettings metadata =
     CommitGroup_calls lib (CommitGroup_decide p config newSettings False)
       (CommitGroup_settings p config newSettings) (ID config)
       (templateNameOf (ID config) (currentTemplate (CommitGroup_settings p config newSettings)))
       (int64 (Size (Allocation (spec newSettings)))) metadata"

subsection \<open>Equality of instance properties, in the words of the specification\<close>

text \<open>
  The specification (section 3) calls two property records equal if and only if every
  field matches by value, order-independent for collections. This is that relation,
  for comparison with the \<open>reflect.DeepEqual\<close> of the source: the two collections
  \<open>Tags\<close> and \<open>Scopes\<close> are compared as multisets of their elements (so a \<open>nil\<close> and
  an empty slice are the same collection), every other field by equality.
\<close>

definition elements :: "'b list option \<Rightarrow> 'b list" where
  "elements xs = (case xs of None \<Rightarrow> [] | Some ys \<Rightarrow> ys)"

definition spec_equal :: "'a properties_scheme \<Rightarrow> 'a properties_scheme \<Rightarrow> bool" where
  "spec_equal a b =
     (NamePrefix a = NamePrefix b \<and> Description a = Description b \<and>
      MachineType a = MachineType b \<and> Network a = Network b \<and>
      mset (elements (Tags a)) = mset (elements (Tags b)) \<and>
      DiskSizeMb a = DiskSizeMb b \<and> DiskImage a = DiskImage b \<and> DiskType a = DiskType b \<and>
      mset (elements (Scopes a)) = mset (elements (Scopes b)) \<and>
      TargetPool a = TargetPool b \<and> Preemptible a = Preemptible b \<and>
      properties.more a = properties.more b)"

subsection \<open>A concrete plugin for the examples\<close>

text \<open>
  The examples need collaborators that compute. The example parser reads a group's
  properties \<open>''+++n1-standard-1,a,b''\<close> as three instances of machine type
  \<open>n1-standard-1\<close> with the tags \<open>a\<close> and \<open>b\<close> (no comma: a \<open>nil\<close> slice of tags), and a
  leading \<open>*\<close> in place of the \<open>+\<close> signs as the largest size, \<open>2^64 - 1\<close>. Its argument
  is the \<open>LogicalIDs\<close> slice that it reports. The struct of the instance properties has
  no further field in the examples. The example flavor accepts everything and prepares
  nothing; the example drivers either always succeed or refuse the calls that a given
  predicate selects.
\<close>

definition demo_properties :: "string \<Rightarrow> properties" where
  "demo_properties raw =
     (let parts = Split raw CHR '','' in
      \<lparr>NamePrefix = ''instance'', Description = [], MachineType = hd parts,
       Network = ''default'', Tags = (if tl parts = [] then None else Some (tl parts)),
       DiskSizeMb = 10, DiskImage = [], DiskType = [], Scopes = None, TargetPool = [],
       Preemptible = False\<rparr>)"

definition demo_size :: "string \<Rightarrow> 64 word" where
  "demo_size raw =
     (case raw of
        [] \<Rightarrow> 0
      | c # cs \<Rightarrow>
          if c = CHR ''*'' then - 1
          else word_of_nat (length (takeWhile (\<lambda>c. c = CHR ''+'') raw)))"

definition demo_lib :: "string list option \<Rightarrow> unit lib" where
  "demo_lib ids =
     \<lparr>ParseProperties = (\<lambda>g. Inr
        \<lparr>Instance = \<lparr>Plugin = ''instance-gcp'',
                     plugin_Properties =
                       dropWhile (\<lambda>c. c = CHR ''+'' \<or> c = CHR ''*'') (group_Properties g)\<rparr>,
         Flavor = \<lparr>Plugin = ''flavor-vanilla'', plugin_Properties = []\<rparr>,
         Allocation = \<lparr>Size = demo_size (group_Properties g), LogicalIDs = ids\<rparr>\<rparr>),
      ParseInstanceProperties = (\<lambda>raw. Inr (demo_properties raw)),
      ParseMetadata = (\<lambda>s. Inr (instance_Tags s)),
      TagsToMetaData = (\<lambda>tags. tags),
      MetaDataToTags = (\<lambda>items. items)\<rparr>"

definition demo_flavor :: flavorPlugin where
  "demo_flavor = \<lparr>Validate = (\<lambda>_ _. None), Prepare = (\<lambda>_ s _. Inr s)\<rparr>"

definition demo_driver :: "(api_call \<Rightarrow> bool) \<Rightarrow> managedInstance list \<Rightarrow> driver" where
  "demo_driver refused members =
     \<lparr>status = (\<lambda>_ c. if refused c then Some ''refused'' else None),
      listing = (\<lambda>_ _. Inr members),
      fetched = (\<lambda>_ name. Inr \<lparr>Name = name, Items = []\<rparr>)\<rparr>"

text \<open>The plugin as \<open>NewGCEGroupPlugin\<close> returns it: no group is watched.\<close>

definition demo_plugin :: "driver \<Rightarrow> unit plugin" where
  "demo_plugin api =
     \<lparr>API = api,
      flavorPlugins =
        (\<lambda>name. if name = ''flavor-vanilla'' then Inr demo_flavor else Inl ''no such plugin''),
      groups = Map.empty,
      calls = []\<rparr>"

definition is_ResizeInstanceGroupManager :: "api_call \<Rightarrow> bool" where
  "is_ResizeInstanceGroupManager c =
     (case c of ResizeInstanceGroupManager _ _ \<Rightarrow> True | _ \<Rightarrow> False)"

definition is_DeleteInstanceTemplate :: "api_call \<Rightarrow> bool" where
  "is_DeleteInstanceTemplate c = (case c of DeleteInstanceTemplate _ \<Rightarrow> True | _ \<Rightarrow> False)"

definition is_SetInstanceTemplate :: "api_call \<Rightarrow> bool" where
  "is_SetInstanceTemplate c = (case c of SetInstanceTemplate _ _ \<Rightarrow> True | _ \<Rightarrow> False)"

definition demo_g3 :: groupSpec where
  "demo_g3 = \<lparr>ID = ''g'', group_Properties = ''+++n1-standard-1''\<rparr>"

definition demo_g5 :: groupSpec where
  "demo_g5 = \<lparr>ID = ''g'', group_Properties = ''+++++n1-standard-1''\<rparr>"

definition demo_g5' :: groupSpec where
  "demo_g5' = \<lparr>ID = ''g'', group_Properties = ''+++++n1-standard-2''\<rparr>"

definition demo_ab3 :: groupSpec where
  "demo_ab3 = \<lparr>ID = ''g'', group_Properties = ''+++n1-standard-1,a,b''\<rparr>"

definition demo_ba3 :: groupSpec where
  "demo_ba3 = \<lparr>ID = ''g'', group_Properties = ''+++n1-standard-1,b,a''\<rparr>"

definition demo_ba5 :: groupSpec where
  "demo_ba5 = \<lparr>ID = ''g'', group_Properties = ''+++++n1-standard-1,b,a''\<rparr>"

definition demo_max :: groupSpec where
  "demo_max = \<lparr>ID = ''g'', group_Properties = ''*n1-standard-1''\<rparr>"

definition demo_ok :: driver where
  "demo_ok = demo_driver (\<lambda>_. False) [\<lparr>member_Instance = ''zones/z/instances/g-a''\<rparr>,
     \<lparr>member_Instance = ''zones/z/instances/g-b''\<rparr>, \<lparr>member_Instance = ''zones/z/instances/g-c''\<rparr>]"

definition demo_no_resize :: driver where
  "demo_no_resize = demo_driver is_ResizeInstanceGroupManager []"

definition demo_no_template_delete :: driver where
  "demo_no_template_delete = demo_driver is_DeleteInstanceTemplate []"

text \<open>After a first commit of \<open>demo_g3\<close>, with each of the drivers, and after a first
  commit of \<open>demo_ab3\<close>.\<close>

definition demo_tagged :: "driver \<Rightarrow> unit plugin" where
  "demo_tagged api = snd (CommitGroup (demo_lib None) demo_ab3 False (demo_plugin api))"


definition demo_watched :: "driver \<Rightarrow> unit plugin" where
  "demo_watched api = snd (CommitGroup (demo_lib None) demo_g3 False (demo_plugin api))"

section \<open>Properties\<close>

subsection \<open>Sequences of calls\<close>

lemma API_call_frame:
  "API_call c p = (r, p') \<Longrightarrow>
     p' = p\<lparr>calls := calls p @ [c]\<rparr> \<and> r = map_option Collaborator (status (API p) (calls p) c)"
  by (auto simp: API_call_def)

lemma API_calls_append:
  "API_calls (xs @ ys) p =
     (case API_calls xs p of (Some err, p') \<Rightarrow> (Some err, p') | (None, p') \<Rightarrow> API_calls ys p')"
  by (induction xs arbitrary: p) (auto split: prod.splits option.splits)

lemma andThen_API_calls: "andThen (API_calls xs) (API_calls ys) = API_calls (xs @ ys)"
  by (rule ext) (simp add: andThen_def API_calls_append)

lemma API_calls_single: "API_calls [c] = API_call c"
  by (rule ext) (auto split: prod.splits option.splits)

lemma guarded_API_call: "guarded b (API_call c) = API_calls (if b then [c] else [])"
  by (rule ext) (auto simp: guarded_def API_calls_single)

lemma API_calls_None:
  "API_calls cs p = (None, p') \<Longrightarrow>
     p' = p\<lparr>calls := calls p @ cs\<rparr> \<and>
     (\<forall>n<length cs. status (API p) (calls p @ take n cs) (cs ! n) = None)"
proof (induction cs arbitrary: p)
  case Nil
  then show ?case by simp
next
  case (Cons c cs)
  from Cons.prems obtain p1 where
    s1: "API_call c p = (None, p1)" and s2: "API_calls cs p1 = (None, p')"
    by (auto split: prod.splits option.splits)
  from s1 have p1: "p1 = p\<lparr>calls := calls p @ [c]\<rparr>" and r1: "status (API p) (calls p) c = None"
    by (auto simp: API_call_def)
  from Cons.IH [OF s2] have
    a: "p' = p1\<lparr>calls := calls p1 @ cs\<rparr>" and
    b: "\<forall>n<length cs. status (API p1) (calls p1 @ take n cs) (cs ! n) = None"
    by simp_all
  have "status (API p) (calls p @ take n (c # cs)) ((c # cs) ! n) = None"
    if "n < length (c # cs)" for n
  proof (cases n)
    case 0
    then show ?thesis using r1 by simp
  next
    case (Suc m)
    with that b p1 show ?thesis by simp
  qed
  with a p1 show ?case by simp
qed

lemma API_calls_Some:
  "API_calls cs p = (Some err, p') \<Longrightarrow>
     \<exists>n e. n < length cs \<and> p' = p\<lparr>calls := calls p @ take (Suc n) cs\<rparr> \<and>
       status (API p) (calls p @ take n cs) (cs ! n) = Some e \<and> err = Collaborator e \<and>
       (\<forall>m<n. status (API p) (calls p @ take m cs) (cs ! m) = None)"
proof (induction cs arbitrary: p)
  case Nil
  then show ?case by simp
next
  case (Cons c cs)
  show ?case
  proof (cases "status (API p) (calls p) c")
    case (Some e)
    with Cons.prems have "p' = p\<lparr>calls := calls p @ [c]\<rparr>" "err = Collaborator e"
      by (auto simp: API_call_def)
    with Some show ?thesis by (intro exI [of _ 0] exI [of _ e]) simp
  next
    case None
    define p1 where "p1 = p\<lparr>calls := calls p @ [c]\<rparr>"
    from None Cons.prems have s2: "API_calls cs p1 = (Some err, p')"
      by (auto simp: API_call_def p1_def)
    from Cons.IH [OF s2] obtain n e where
      n: "n < length cs" and
      a: "p' = p1\<lparr>calls := calls p1 @ take (Suc n) cs\<rparr>" and
      b: "status (API p1) (calls p1 @ take n cs) (cs ! n) = Some e" and
      c: "err = Collaborator e" and
      d: "\<forall>m<n. status (API p1) (calls p1 @ take m cs) (cs ! m) = None"
      by blast
    have "status (API p) (calls p @ take m (c # cs)) ((c # cs) ! m) = None" if "m < Suc n" for m
    proof (cases m)
      case 0
      then show ?thesis using None by simp
    next
      case (Suc k)
      with that d show ?thesis by (simp add: p1_def)
    qed
    with n a b c show ?thesis
      by (intro exI [of _ "Suc n"] exI [of _ e]) (simp add: p1_def)
  qed
qed

lemma CommitGroup_apply_calls:
  "CommitGroup_apply lib d s name tn ts p =
     (if createTemplate d
      then (case ParseMetadata lib (instanceSpec s) of
              Inl err \<Rightarrow> (Some (Collaborator err), p)
            | Inr md \<Rightarrow> API_calls (CommitGroup_calls lib d s name tn ts md) p)
      else API_calls (CommitGroup_calls lib d s name tn ts []) p)"
proof (cases "createTemplate d")
  case False
  then have "guarded (createTemplate d) (CommitGroup_createTemplate lib s tn) = API_calls []"
    by (intro ext) (simp add: guarded_def)
  with False show ?thesis
    by (simp add: CommitGroup_apply_def CommitGroup_calls_def guarded_API_call andThen_API_calls)
next
  case True
  show ?thesis
  proof (cases "ParseMetadata lib (instanceSpec s)")
    case (Inl err)
    with True show ?thesis
      by (simp add: CommitGroup_apply_def andThen_def guarded_def CommitGroup_createTemplate_def)
  next
    case (Inr md)
    have "guarded (createTemplate d) (CommitGroup_createTemplate lib s tn) p =
          API_calls [CreateInstanceTemplate tn (templateSettings lib s md)] p"
      using True Inr by (simp add: guarded_def CommitGroup_createTemplate_def API_calls_single)
    then have "CommitGroup_apply lib d s name tn ts p =
          andThen (API_calls [CreateInstanceTemplate tn (templateSettings lib s md)])
            (andThen (guarded (createManager d)
                (API_call (CreateInstanceGroupManager name (managerSettings s name ts))))
            (andThen (guarded (updateManager d) (API_call (SetInstanceTemplate name tn)))
               (guarded (resize d) (API_call (ResizeInstanceGroupManager name ts))))) p"
      by (simp add: CommitGroup_apply_def andThen_def)
    with True Inr show ?thesis
      by (simp add: CommitGroup_calls_def guarded_API_call andThen_API_calls)
  qed
qed

lemma API_calls_frame:
  "API_calls cs p = (r, p') \<Longrightarrow>
     \<exists>n\<le>length cs. p' = p\<lparr>calls := calls p @ take n cs\<rparr>"
proof (cases r)
  case None
  assume "API_calls cs p = (r, p')"
  with None have "p' = p\<lparr>calls := calls p @ cs\<rparr>" using API_calls_None by blast
  then show ?thesis by (intro exI [of _ "length cs"]) simp
next
  case (Some err)
  assume "API_calls cs p = (r, p')"
  with Some obtain n where "n < length cs" "p' = p\<lparr>calls := calls p @ take (Suc n) cs\<rparr>"
    using API_calls_Some by blast
  then show ?thesis by (intro exI [of _ "Suc n"]) simp
qed

lemma API_calls_failed:
  "API_calls cs p = (r, p') \<Longrightarrow> calls p' = calls p @ pre @ c # post \<Longrightarrow>
   status (API p) (calls p @ pre) c = Some e \<Longrightarrow>
     r = Some (Collaborator e) \<and> post = [] \<and> p' = p\<lparr>calls := calls p @ pre @ [c]\<rparr>"
proof (induction cs arbitrary: p pre)
  case Nil
  then show ?case by simp
next
  case (Cons x xs)
  show ?case
  proof (cases "status (API p) (calls p) x")
    case (Some e0)
    with Cons.prems(1) have r: "r = Some (Collaborator e0)" and p': "p' = p\<lparr>calls := calls p @ [x]\<rparr>"
      by (auto simp: API_call_def)
    from p' Cons.prems(2) have "[x] = pre @ c # post" by simp
    then have "pre = []" "c = x" "post = []"
      by (auto simp: Cons_eq_append_conv)
    with r p' Some Cons.prems(3) show ?thesis by simp
  next
    case None
    define p1 where "p1 = p\<lparr>calls := calls p @ [x]\<rparr>"
    from None Cons.prems(1) have run: "API_calls xs p1 = (r, p')"
      by (auto simp: API_call_def p1_def)
    then obtain n where "p' = p1\<lparr>calls := calls p1 @ take n xs\<rparr>"
      using API_calls_frame by blast
    then have "calls p' = calls p @ x # take n xs" by (simp add: p1_def)
    with Cons.prems(2) have eq: "x # take n xs = pre @ c # post" by simp
    have "pre \<noteq> []"
    proof
      assume "pre = []"
      with eq have "c = x" by simp
      with \<open>pre = []\<close> Cons.prems(3) None show False by simp
    qed
    then obtain pre' where pre: "pre = x # pre'"
      using eq by (cases pre) auto
    from Cons.prems(2) pre have a: "calls p' = calls p1 @ pre' @ c # post" by (simp add: p1_def)
    from Cons.prems(3) pre have b: "status (API p1) (calls p1 @ pre') c = Some e"
      by (simp add: p1_def)
    from Cons.IH [OF run a b] show ?thesis by (simp add: p1_def pre)
  qed
qed

subsection \<open>The outcomes of a commit\<close>

lemma validate_fresh:
  "validate lib p config = Inr new \<Longrightarrow>
     currentTemplate new = 1 \<and> createdTemplates new = [] \<and> groupSpec new = config \<and> ID config \<noteq> []"
  by (auto simp: validate_def split: if_splits sum.splits option.splits)

lemma CommitGroup_real:
  assumes "validate lib p config = Inr new"
  shows "CommitGroup lib config False p =
     (let d = CommitGroup_decide p config new False;
          tn = templateNameOf (ID config) (currentTemplate (d_settings d));
          s = (d_settings d)\<lparr>createdTemplates := createdTemplates (d_settings d) @ [tn]\<rparr>
      in case CommitGroup_apply lib d s (ID config) tn (int64 (Size (Allocation (spec new)))) p of
           (Some err, p') \<Rightarrow> (Inl err, p')
         | (None, p') \<Rightarrow>
             (Inr (Join (operations d) [CHR 0x0A]), p'\<lparr>groups := (groups p')(ID config \<mapsto> s)\<rparr>))"
  using assms by (simp add: CommitGroup_def Let_def)

lemma CommitGroup_pretend:
  assumes "validate lib p config = Inr new"
  shows "CommitGroup lib config True p =
     (Inr (Join (operations (CommitGroup_decide p config new True)) [CHR 0x0A]),
      p\<lparr>groups := (groups p)(ID config \<mapsto> d_settings (CommitGroup_decide p config new True))\<rparr>)"
  using assms by (simp add: CommitGroup_def Let_def)

lemma CommitGroup_invalid:
  "validate lib p config = Inl err \<Longrightarrow> CommitGroup lib config pretend p = (Inl err, p)"
  by (simp add: CommitGroup_def)

text \<open>Outcomes of a commit that is not a dry run.\<close>

lemma CommitGroup_real_cases:
  assumes "CommitGroup lib config False p = (r, p')"
  obtains
    (invalid) err where "validate lib p config = Inl err" "r = Inl err" "p' = p"
  | (metadata) new err where "validate lib p config = Inr new"
      "createTemplate (CommitGroup_decide p config new False)"
      "ParseMetadata lib (instanceSpec (CommitGroup_settings p config new)) = Inl err"
      "r = Inl (Collaborator err)" "p' = p"
  | (failed) new md err where "validate lib p config = Inr new"
      "createTemplate (CommitGroup_decide p config new False) \<longrightarrow>
         ParseMetadata lib (instanceSpec (CommitGroup_settings p config new)) = Inr md"
      "API_calls (CommitGroup_plan lib p config new md) p = (Some err, p')"
      "r = Inl err"
  | (succeeded) new md p1 where "validate lib p config = Inr new"
      "createTemplate (CommitGroup_decide p config new False) \<longrightarrow>
         ParseMetadata lib (instanceSpec (CommitGroup_settings p config new)) = Inr md"
      "API_calls (CommitGroup_plan lib p config new md) p = (None, p1)"
      "r = Inr (Join (operations (CommitGroup_decide p config new False)) [CHR 0x0A])"
      "p' = p1\<lparr>groups := (groups p1)(ID config \<mapsto> CommitGroup_settings p config new)\<rparr>"
proof (cases "validate lib p config")
  case (Inl err)
  with assms have "r = Inl err" "p' = p" by (simp_all add: CommitGroup_invalid)
  with Inl show ?thesis by (rule invalid)
next
  case (Inr new)
  define d where "d = CommitGroup_decide p config new False"
  define s where "s = CommitGroup_settings p config new"
  define tn where "tn = templateNameOf (ID config) (currentTemplate s)"
  have tn: "tn = templateNameOf (ID config) (currentTemplate (d_settings d))"
    by (simp add: tn_def s_def d_def CommitGroup_settings_def Let_def)
  have s: "s = (d_settings d)\<lparr>createdTemplates := createdTemplates (d_settings d) @ [tn]\<rparr>"
    by (simp add: tn s_def d_def CommitGroup_settings_def Let_def)
  have plan: "CommitGroup_plan lib p config new md =
      CommitGroup_calls lib d s (ID config) tn (int64 (Size (Allocation (spec new)))) md" for md
    by (simp add: CommitGroup_plan_def d_def s_def tn_def)
  from assms Inr have c: "(case CommitGroup_apply lib d s (ID config) tn (int64 (Size (Allocation (spec new)))) p of
           (Some err, p') \<Rightarrow> (Inl err, p')
         | (None, p') \<Rightarrow>
             (Inr (Join (operations d) [CHR 0x0A]), p'\<lparr>groups := (groups p')(ID config \<mapsto> s)\<rparr>)) = (r, p')"
    unfolding s tn d_def by (simp add: CommitGroup_real Let_def)
  show ?thesis
  proof (cases "createTemplate d \<and> isl (ParseMetadata lib (instanceSpec s))")
    case True
    then obtain err where e: "ParseMetadata lib (instanceSpec s) = Inl err"
      by (cases "ParseMetadata lib (instanceSpec s)") auto
    with True c have "r = Inl (Collaborator err)" "p' = p"
      by (auto simp: CommitGroup_apply_calls)
    with Inr True e metadata show ?thesis unfolding d_def s_def by blast
  next
    case False
    have "\<exists>md. (createTemplate d \<longrightarrow> ParseMetadata lib (instanceSpec s) = Inr md) \<and>
        CommitGroup_apply lib d s (ID config) tn (int64 (Size (Allocation (spec new)))) p =
          API_calls (CommitGroup_plan lib p config new md) p"
    proof (cases "createTemplate d")
      case True
      with False obtain md where "ParseMetadata lib (instanceSpec s) = Inr md"
        by (cases "ParseMetadata lib (instanceSpec s)") auto
      with True show ?thesis by (simp add: CommitGroup_apply_calls plan)
    next
      case no: False
      then show ?thesis by (intro exI [of _ "[]"]) (simp add: CommitGroup_apply_calls plan)
    qed
    then obtain md where
      md: "createTemplate d \<longrightarrow> ParseMetadata lib (instanceSpec s) = Inr md" and
      ap: "CommitGroup_apply lib d s (ID config) tn (int64 (Size (Allocation (spec new)))) p =
           API_calls (CommitGroup_plan lib p config new md) p"
      by blast
    show ?thesis
    proof (cases "API_calls (CommitGroup_plan lib p config new md) p")
      case (Pair res p1)
      show ?thesis
      proof (cases res)
        case None
        with Pair ap c have "r = Inr (Join (operations d) [CHR 0x0A])"
          "p' = p1\<lparr>groups := (groups p1)(ID config \<mapsto> s)\<rparr>" by auto
        with Inr Pair None md succeeded show ?thesis unfolding d_def s_def by blast
      next
        case (Some err)
        with Pair ap c have "r = Inl err" "p' = p1" by auto
        with Inr Pair Some md failed show ?thesis unfolding d_def s_def by blast
      qed
    qed
  qed
qed

lemma decide_absent:
  "groups p (ID config) = None \<Longrightarrow>
     CommitGroup_decide p config new pretend =
       \<lparr>d_settings = new,
        operations = [''Managing '' @ Sprintf_d (int64 (Size (Allocation (spec new)))) @ '' instances''],
        createManager = True, createTemplate = True, updateManager = False, resize = False\<rparr>"
  by (simp add: CommitGroup_decide_def)

lemma decide_present:
  "groups p (ID config) = Some old \<Longrightarrow>
     d_settings (CommitGroup_decide p config new pretend) =
       (if instanceProperties old \<noteq> instanceProperties new \<and> \<not> pretend
        then old\<lparr>currentTemplate := currentTemplate old + 1\<rparr> else old) \<and>
     createManager (CommitGroup_decide p config new pretend) = False \<and>
     createTemplate (CommitGroup_decide p config new pretend) =
       (instanceProperties old \<noteq> instanceProperties new) \<and>
     resize (CommitGroup_decide p config new pretend) =
       (Size (Allocation (spec old)) \<noteq> Size (Allocation (spec new)))"
  by (simp add: CommitGroup_decide_def Let_def)

lemma decide_updateManager: "updateManager (CommitGroup_decide p config new pretend) = False"
  by (simp add: CommitGroup_decide_def Let_def split: option.splits)

lemma plan_absent:
  "groups p (ID config) = None \<Longrightarrow> validate lib p config = Inr new \<Longrightarrow>
     CommitGroup_settings p config new = new\<lparr>createdTemplates := [templateNameOf (ID config) 1]\<rparr> \<and>
     CommitGroup_plan lib p config new md =
       [CreateInstanceTemplate (templateNameOf (ID config) 1)
          (templateSettings lib (CommitGroup_settings p config new) md),
        CreateInstanceGroupManager (ID config)
          (managerSettings (CommitGroup_settings p config new) (ID config)
             (int64 (Size (Allocation (spec new)))))]"
  by (frule validate_fresh)
     (simp add: CommitGroup_settings_def CommitGroup_plan_def CommitGroup_calls_def decide_absent)

lemma plan_present:
  "groups p (ID config) = Some old \<Longrightarrow>
     CommitGroup_settings p config new =
       (if instanceProperties old \<noteq> instanceProperties new
        then old\<lparr>currentTemplate := currentTemplate old + 1,
                 createdTemplates := createdTemplates old @
                   [templateNameOf (ID config) (currentTemplate old + 1)]\<rparr>
        else old\<lparr>createdTemplates := createdTemplates old @
                   [templateNameOf (ID config) (currentTemplate old)]\<rparr>) \<and>
     CommitGroup_plan lib p config new md =
       (if instanceProperties old \<noteq> instanceProperties new
        then [CreateInstanceTemplate (templateNameOf (ID config) (currentTemplate old + 1))
                (templateSettings lib (CommitGroup_settings p config new) md)]
        else []) @
       (if Size (Allocation (spec old)) \<noteq> Size (Allocation (spec new))
        then [ResizeInstanceGroupManager (ID config) (int64 (Size (Allocation (spec new))))]
        else [])"
  by (simp add: CommitGroup_settings_def CommitGroup_plan_def CommitGroup_calls_def
        decide_present decide_updateManager Let_def)

lemma filter_take_Nil: "filter P xs = [] \<Longrightarrow> filter P (take n xs) = []"
  by (auto simp: filter_empty_conv dest: in_set_takeD)

lemma plan_no_SetInstanceTemplate:
  "filter is_SetInstanceTemplate (CommitGroup_plan lib p config new md) = []"
  by (simp add: CommitGroup_plan_def CommitGroup_calls_def decide_updateManager
        is_SetInstanceTemplate_def)

lemma DescribeGroup_instances_error:
  "DescribeGroup_instances lib members acc p = (Inl err, p') \<Longrightarrow> \<exists>e. err = Collaborator e"
proof (induction members arbitrary: acc p)
  case Nil
  then show ?case by simp
next
  case (Cons m ms)
  then show ?case
    by (auto simp: API_GetInstance_def split: sum.splits prod.splits)
qed

lemma DescribeGroup_error:
  "groups p gid = Some s \<Longrightarrow> DescribeGroup lib gid p = (Inl err, p') \<Longrightarrow> \<exists>e. err = Collaborator e"
  by (auto simp: DescribeGroup_def API_ListInstanceGroupInstances_def
        split: sum.splits prod.splits dest: DescribeGroup_instances_error)

lemma DestroyGroup_templates_calls:
  "DestroyGroup_templates names p = API_calls (map DeleteInstanceTemplate names) p"
  by (induction names arbitrary: p) (auto split: prod.splits option.splits)

lemma DestroyGroup_watched:
  "groups p gid = Some s \<Longrightarrow>
     DestroyGroup gid p =
       (case API_calls (DestroyGroup_calls gid s) p of
          (Some err, p') \<Rightarrow> (Some err, p')
        | (None, p') \<Rightarrow> (None, p'\<lparr>groups := (groups p')(gid := None)\<rparr>))"
  by (simp add: DestroyGroup_def DestroyGroup_calls_def DestroyGroup_templates_calls
        split: prod.splits option.splits)

lemma DestroyGroup_error:
  "groups p gid = Some s \<Longrightarrow> DestroyGroup gid p = (Some err, p') \<Longrightarrow> \<exists>e. err = Collaborator e"
proof -
  assume w: "groups p gid = Some s" and d: "DestroyGroup gid p = (Some err, p')"
  obtain res p1 where run: "API_calls (DestroyGroup_calls gid s) p = (res, p1)"
    by (cases "API_calls (DestroyGroup_calls gid s) p")
  with w d have "res = Some err" by (cases res) (simp_all add: DestroyGroup_watched)
  with run show ?thesis using API_calls_Some by blast
qed

lemma dry_run_no_calls: "calls (snd (CommitGroup lib config True p)) = calls p"
  by (cases "validate lib p config") (simp_all add: CommitGroup_invalid CommitGroup_pretend)

lemma dry_run_watched_unchanged:
  "groups p (ID config) = Some old \<Longrightarrow> snd (CommitGroup lib config True p) = p"
proof (cases "validate lib p config")
  case (Inl err)
  then show ?thesis by (simp add: CommitGroup_invalid)
next
  case (Inr new)
  assume w: "groups p (ID config) = Some old"
  then have "(groups p)(ID config \<mapsto> old) = groups p" by (rule map_upd_triv)
  with w Inr show ?thesis by (simp add: CommitGroup_pretend decide_present)
qed

lemma Split_not_Nil: "Split url sep \<noteq> []"
  by (induction url) (auto split: list.splits)

lemma decide_present_operations:
  "groups p (ID config) = Some old \<Longrightarrow>
     operations (CommitGroup_decide p config new pretend) =
       (if instanceProperties old \<noteq> instanceProperties new
        then [''Updating instance template''] else []) @
       (if Size (Allocation (spec old)) \<noteq> Size (Allocation (spec new))
        then [''Scaling group to '' @ Sprintf_d (int64 (Size (Allocation (spec new)))) @
              '' instance.'']
        else [])"
  by (simp add: CommitGroup_decide_def Let_def)

lemma int64_small: "unat w < 2 ^ 63 \<Longrightarrow> int64 w = int (unat w)"
proof -
  assume a: "unat w < 2 ^ 63"
  have u: "uint w = int (unat w)" by simp
  from a have "int (unat w) < 2 ^ 63" by (metis of_nat_less_iff of_nat_numeral of_nat_power)
  with u have "uint w < 2 ^ 63" by simp
  moreover have "- (2 ^ 63) \<le> uint w" by (rule order_trans [of _ 0]) simp_all
  ultimately have "signed_take_bit 63 (uint w) = uint w"
    by (rule signed_take_bit_int_eq_self [rotated])
  then show ?thesis by (simp add: int64_def sint_uint)
qed

section \<open>The claims\<close>

subsection \<open>C1: a dry run and the registry\<close>

text \<open>
  C1 says that a commit with \<open>pretend = true\<close> issues no driver call, does not bump the
  template version and leaves the registry as it was, for unknown group IDs as well as
  for watched ones. The first two parts and the watched case hold (\<open>dry_run_no_calls\<close>,
  \<open>dry_run_watched_unchanged\<close>). For an unknown ID the assignment
  \<open>p.groups[config.ID] = settings\<close> at the end of \<open>CommitGroup\<close> is outside the
  \<open>if !pretend\<close> block: the dry run of \<open>demo_g3\<close> on the fresh plugin registers the
  group \<open>g\<close> at version 1, and the commit proper that follows finds it present and
  unchanged, so it creates neither template nor manager.
\<close>

theorem dry_run_registers_unknown_group:
  "groups (demo_plugin demo_ok) (ID demo_g3) = None \<and>
   fst (CommitGroup (demo_lib None) demo_g3 True (demo_plugin demo_ok)) =
     Inr ''Managing 3 instances'' \<and>
   map_option currentTemplate
     (groups (snd (CommitGroup (demo_lib None) demo_g3 True (demo_plugin demo_ok))) (ID demo_g3)) =
     Some 1 \<and>
   calls (snd (CommitGroup (demo_lib None) demo_g3 False
     (snd (CommitGroup (demo_lib None) demo_g3 True (demo_plugin demo_ok))))) = []"
  by code_simp

subsection \<open>C2: the driver operations of a successful commit\<close>

text \<open>
  C2 says that a successful commit that is not a dry run issues exactly the calls of
  the state table: for a watched group a new template when the instance properties
  are unequal, a resize when the sizes are unequal, and no call when both are equal;
  the manager and the resize are sized to the allocation size. In the specification
  two property records are equal when every field matches by value, whatever the order
  of the collections (\<open>spec_equal\<close>). The source compares with \<open>reflect.DeepEqual\<close> and
  hands \<open>int64(size)\<close> to the driver. So the claim fails twice. The group committed
  with the tags \<open>a, b\<close> and committed again with the tags \<open>b, a\<close> and the same size has
  equal properties in the sense of the specification, yet the second commit creates
  the template \<open>g-2\<close> (from the stored properties) and stores version 2. And a first
  commit with the size \<open>2^64 - 1\<close> creates a manager whose target size is \<open>-1\<close>.
\<close>

theorem state_table_counterexample:
  "map_option (Size \<circ> Allocation \<circ> spec) (groups (demo_tagged demo_ok) ''g'') = Some 3 \<and>
   map_sum id (Size \<circ> Allocation \<circ> spec)
     (validate (demo_lib None) (demo_tagged demo_ok) demo_ba3) = Inr 3 \<and>
   spec_equal (instanceProperties (the (groups (demo_tagged demo_ok) ''g'')))
     (instanceProperties (projr (validate (demo_lib None) (demo_tagged demo_ok) demo_ba3))) \<and>
   fst (CommitGroup (demo_lib None) demo_ba3 False (demo_tagged demo_ok)) =
     Inr ''Updating instance template'' \<and>
   calls (snd (CommitGroup (demo_lib None) demo_ba3 False (demo_tagged demo_ok))) =
     calls (demo_tagged demo_ok) @
     [CreateInstanceTemplate ''g-2''
        \<lparr>tmpl_Description = [], tmpl_MachineType = ''n1-standard-1'', tmpl_Network = ''default'',
         tmpl_Tags = Some [''a'', ''b''], tmpl_DiskSizeMb = 10, tmpl_DiskImage = [],
         tmpl_DiskType = [], tmpl_Scopes = None, tmpl_Preemptible = False,
         AutoDeleteDisk = True, ReuseExistingDisk = False, MetaData = []\<rparr>] \<and>
   map_option currentTemplate
     (groups (snd (CommitGroup (demo_lib None) demo_ba3 False (demo_tagged demo_ok))) ''g'') =
     Some 2 \<and>
   map_sum id (Size \<circ> Allocation \<circ> spec)
     (validate (demo_lib None) (demo_plugin demo_ok) demo_max) = Inr (- 1) \<and>
   unat (- 1 :: 64 word) = 2 ^ 64 - 1 \<and>
   fst (CommitGroup (demo_lib None) demo_max False (demo_plugin demo_ok)) =
     Inr ''Managing -1 instances'' \<and>
   calls (snd (CommitGroup (demo_lib None) demo_max False (demo_plugin demo_ok))) ! 1 =
     CreateInstanceGroupManager ''g''
       \<lparr>TemplateName = ''g-1'', TargetSize = - 1, mgr_Description = [], mgr_TargetPool = [],
        BaseInstanceName = ''instance''\<rparr>"
proof -
  have e: "spec_equal (instanceProperties (the (groups (demo_tagged demo_ok) ''g'')))
     (instanceProperties (projr (validate (demo_lib None) (demo_tagged demo_ok) demo_ba3)))"
  proof -
    have a: "instanceProperties (the (groups (demo_tagged demo_ok) ''g'')) =
        \<lparr>NamePrefix = ''instance'', Description = [], MachineType = ''n1-standard-1'',
         Network = ''default'', Tags = Some [''a'', ''b''], DiskSizeMb = 10, DiskImage = [],
         DiskType = [], Scopes = None, TargetPool = [], Preemptible = False\<rparr>"
      by code_simp
    have b: "instanceProperties (projr (validate (demo_lib None) (demo_tagged demo_ok) demo_ba3)) =
        \<lparr>NamePrefix = ''instance'', Description = [], MachineType = ''n1-standard-1'',
         Network = ''default'', Tags = Some [''b'', ''a''], DiskSizeMb = 10, DiskImage = [],
         DiskType = [], Scopes = None, TargetPool = [], Preemptible = False\<rparr>"
      by code_simp
    show ?thesis unfolding a b by (simp add: spec_equal_def elements_def add_mset_commute)
  qed
  have r: "map_option (Size \<circ> Allocation \<circ> spec) (groups (demo_tagged demo_ok) ''g'') = Some 3"
    "map_sum id (Size \<circ> Allocation \<circ> spec)
       (validate (demo_lib None) (demo_tagged demo_ok) demo_ba3) = Inr 3"
    "fst (CommitGroup (demo_lib None) demo_ba3 False (demo_tagged demo_ok)) =
       Inr ''Updating instance template''"
    "calls (snd (CommitGroup (demo_lib None) demo_ba3 False (demo_tagged demo_ok))) =
     calls (demo_tagged demo_ok) @
     [CreateInstanceTemplate ''g-2''
        \<lparr>tmpl_Description = [], tmpl_MachineType = ''n1-standard-1'', tmpl_Network = ''default'',
         tmpl_Tags = Some [''a'', ''b''], tmpl_DiskSizeMb = 10, tmpl_DiskImage = [],
         tmpl_DiskType = [], tmpl_Scopes = None, tmpl_Preemptible = False,
         AutoDeleteDisk = True, ReuseExistingDisk = False, MetaData = []\<rparr>]"
    "map_option currentTemplate
     (groups (snd (CommitGroup (demo_lib None) demo_ba3 False (demo_tagged demo_ok))) ''g'') =
     Some 2"
    "map_sum id (Size \<circ> Allocation \<circ> spec)
     (validate (demo_lib None) (demo_plugin demo_ok) demo_max) = Inr (- 1)"
    "fst (CommitGroup (demo_lib None) demo_max False (demo_plugin demo_ok)) =
     Inr ''Managing -1 instances''"
    "calls (snd (CommitGroup (demo_lib None) demo_max False (demo_plugin demo_ok))) ! 1 =
     CreateInstanceGroupManager ''g''
       \<lparr>TemplateName = ''g-1'', TargetSize = - 1, mgr_Description = [], mgr_TargetPool = [],
        BaseInstanceName = ''instance''\<rparr>"
    by code_simp+
  have u: "unat (- 1 :: 64 word) = 2 ^ 64 - 1"
    by (simp add: unsigned_minus_1_eq_mask mask_eq_exp_minus_1)
  from e r u show ?thesis by blast
qed

text \<open>
  C2 as amended: a successful commit that is not a dry run issues exactly the calls of
  the state table, where instance properties are equal when \<open>reflect.DeepEqual\<close> says
  so (every field of the struct, the order of \<open>Tags\<close> and \<open>Scopes\<close> included, \<open>nil\<close>
  distinct from empty) and where the size handed to the driver is \<open>int64(size)\<close>, which
  is the allocation size when that is below \<open>2^63\<close>. For a group absent from the
  registry: one \<open>CreateInstanceTemplate\<close> named \<open><id>-1\<close>, then one
  \<open>CreateInstanceGroupManager\<close> on that template with that target size, and the stored
  version is 1. For a watched group: one \<open>CreateInstanceTemplate\<close> named with the
  incremented version if and only if the properties are unequal (the version is then
  incremented by one, and no delete call is made), followed by one
  \<open>ResizeInstanceGroupManager\<close> to that target size if and only if the sizes differ;
  both may occur in the same commit, and with neither there is no call.
\<close>

theorem CommitGroup_operations:
  assumes "CommitGroup lib config False p = (Inr summary, p')"
  shows "\<exists>new s'. validate lib p config = Inr new \<and> groups p' (ID config) = Some s' \<and>
     (unat (Size (Allocation (spec new))) < 2 ^ 63 \<longrightarrow>
        int64 (Size (Allocation (spec new))) = int (unat (Size (Allocation (spec new))))) \<and>
     (case groups p (ID config) of
        None \<Rightarrow>
          currentTemplate s' = 1 \<and>
          (\<exists>md. calls p' = calls p @
             [CreateInstanceTemplate (templateNameOf (ID config) 1) (templateSettings lib s' md),
              CreateInstanceGroupManager (ID config)
                \<lparr>TemplateName = templateNameOf (ID config) 1,
                 TargetSize = int64 (Size (Allocation (spec new))),
                 mgr_Description = Description (instanceProperties new),
                 mgr_TargetPool = TargetPool (instanceProperties new),
                 BaseInstanceName = NamePrefix (instanceProperties new)\<rparr>])
      | Some old \<Rightarrow>
          currentTemplate s' =
            (if instanceProperties old \<noteq> instanceProperties new
             then currentTemplate old + 1 else currentTemplate old) \<and>
          (\<exists>md. calls p' = calls p @
             (if instanceProperties old \<noteq> instanceProperties new
              then [CreateInstanceTemplate
                      (templateNameOf (ID config) (currentTemplate old + 1))
                      (templateSettings lib s' md)]
              else []) @
             (if Size (Allocation (spec old)) \<noteq> Size (Allocation (spec new))
              then [ResizeInstanceGroupManager (ID config)
                      (int64 (Size (Allocation (spec new))))]
              else [])))"
  using assms
proof (cases rule: CommitGroup_real_cases)
  case (succeeded new md p1)
  from succeeded(3) have p1: "p1 = p\<lparr>calls := calls p @ CommitGroup_plan lib p config new md\<rparr>"
    using API_calls_None by blast
  with succeeded(5) have
    g: "groups p' (ID config) = Some (CommitGroup_settings p config new)" and
    c: "calls p' = calls p @ CommitGroup_plan lib p config new md"
    by simp_all
  have i: "unat (Size (Allocation (spec new))) < 2 ^ 63 \<longrightarrow>
      int64 (Size (Allocation (spec new))) = int (unat (Size (Allocation (spec new))))"
    by (rule impI) (rule int64_small)
  show ?thesis
  proof (cases "groups p (ID config)")
    case None
    from plan_absent [OF None succeeded(1), of md] validate_fresh [OF succeeded(1)]
    show ?thesis using None g c i succeeded(1) by (auto simp: managerSettings_def)
  next
    case (Some old)
    from plan_present [OF Some, of new lib md]
    show ?thesis using Some g c i succeeded(1) by auto
  qed
qed simp_all

theorem CommitGroup_operations_witness:
  "CommitGroup (demo_lib None) demo_g5' False (demo_watched demo_ok) =
     (Inr (''Updating instance template'' @ [CHR 0x0A] @ ''Scaling group to 5 instance.''),
      snd (CommitGroup (demo_lib None) demo_g5' False (demo_watched demo_ok))) \<and>
   (\<exists>tmpl. calls (snd (CommitGroup (demo_lib None) demo_g5' False (demo_watched demo_ok))) =
      calls (demo_watched demo_ok) @
      [CreateInstanceTemplate ''g-2'' tmpl, ResizeInstanceGroupManager ''g'' 5]) \<and>
   map_option currentTemplate
     (groups (snd (CommitGroup (demo_lib None) demo_g5' False (demo_watched demo_ok))) ''g'') = Some 2"
proof -
  have "fst (CommitGroup (demo_lib None) demo_g5' False (demo_watched demo_ok)) =
     Inr (''Updating instance template'' @ [CHR 0x0A] @ ''Scaling group to 5 instance.'')"
    by code_simp
  then have h: "CommitGroup (demo_lib None) demo_g5' False (demo_watched demo_ok) =
     (Inr (''Updating instance template'' @ [CHR 0x0A] @ ''Scaling group to 5 instance.''),
      snd (CommitGroup (demo_lib None) demo_g5' False (demo_watched demo_ok)))"
    by (simp add: prod_eq_iff)
  have i: "ID demo_g5' = ''g''" by (simp add: demo_g5'_def)
  have v: "map_sum id (\<lambda>s. (instanceProperties s, Size (Allocation (spec s))))
      (validate (demo_lib None) (demo_watched demo_ok) demo_g5') =
      Inr (demo_properties ''n1-standard-2'', 5)"
    by code_simp
  have o: "map_option (\<lambda>s. (instanceProperties s, Size (Allocation (spec s)), currentTemplate s))
      (groups (demo_watched demo_ok) ''g'') = Some (demo_properties ''n1-standard-1'', 3, 1)"
    by code_simp
  have t: "templateNameOf ''g'' 2 = ''g-2''" "int64 5 = 5" by code_simp+
  have ne: "demo_properties ''n1-standard-1'' \<noteq> demo_properties ''n1-standard-2''"
    by code_simp
  from CommitGroup_operations [OF h] v o t ne h show ?thesis
    by (auto simp: i split: option.splits)
qed

subsection \<open>C3: a change of size only\<close>

text \<open>
  C3 says that a commit whose instance properties equal the stored ones and whose size
  differs issues exactly one resize call, creates no template, and leaves both the
  template version and the list of created templates unchanged. The list does not stay
  unchanged: the commit of \<open>demo_g5\<close> below, from size 3 to size 5 with the same
  instance properties, succeeds and turns the list \<open>[g-1]\<close> into \<open>[g-1, g-1]\<close>. And
  with properties that are equal in the sense of the specification (\<open>spec_equal\<close>) but
  not for \<open>reflect.DeepEqual\<close>, the tags \<open>a, b\<close> stored and \<open>b, a\<close> committed, the
  change of size comes with a new template and a new version.
\<close>

theorem size_only_counterexample:
  "map_option instanceProperties (groups (demo_watched demo_ok) ''g'') =
     Some (demo_properties ''n1-standard-1'') \<and>
   map_sum id instanceProperties (validate (demo_lib None) (demo_watched demo_ok) demo_g5) =
     Inr (demo_properties ''n1-standard-1'') \<and>
   fst (CommitGroup (demo_lib None) demo_g5 False (demo_watched demo_ok)) =
     Inr ''Scaling group to 5 instance.'' \<and>
   map_option createdTemplates (groups (demo_watched demo_ok) ''g'') = Some [''g-1''] \<and>
   map_option createdTemplates
     (groups (snd (CommitGroup (demo_lib None) demo_g5 False (demo_watched demo_ok))) ''g'') =
     Some [''g-1'', ''g-1''] \<and>
   spec_equal (instanceProperties (the (groups (demo_tagged demo_ok) ''g'')))
     (instanceProperties (projr (validate (demo_lib None) (demo_tagged demo_ok) demo_ba5))) \<and>
   calls (snd (CommitGroup (demo_lib None) demo_ba5 False (demo_tagged demo_ok))) =
     calls (demo_tagged demo_ok) @
     [CreateInstanceTemplate ''g-2''
        \<lparr>tmpl_Description = [], tmpl_MachineType = ''n1-standard-1'', tmpl_Network = ''default'',
         tmpl_Tags = Some [''a'', ''b''], tmpl_DiskSizeMb = 10, tmpl_DiskImage = [],
         tmpl_DiskType = [], tmpl_Scopes = None, tmpl_Preemptible = False,
         AutoDeleteDisk = True, ReuseExistingDisk = False, MetaData = []\<rparr>,
      ResizeInstanceGroupManager ''g'' 5] \<and>
   map_option currentTemplate
     (groups (snd (CommitGroup (demo_lib None) demo_ba5 False (demo_tagged demo_ok))) ''g'') =
     Some 2"
proof -
  have e: "spec_equal (instanceProperties (the (groups (demo_tagged demo_ok) ''g'')))
     (instanceProperties (projr (validate (demo_lib None) (demo_tagged demo_ok) demo_ba5)))"
  proof -
    have a: "instanceProperties (the (groups (demo_tagged demo_ok) ''g'')) =
        \<lparr>NamePrefix = ''instance'', Description = [], MachineType = ''n1-standard-1'',
         Network = ''default'', Tags = Some [''a'', ''b''], DiskSizeMb = 10, DiskImage = [],
         DiskType = [], Scopes = None, TargetPool = [], Preemptible = False\<rparr>"
      by code_simp
    have b: "instanceProperties (projr (validate (demo_lib None) (demo_tagged demo_ok) demo_ba5)) =
        \<lparr>NamePrefix = ''instance'', Description = [], MachineType = ''n1-standard-1'',
         Network = ''default'', Tags = Some [''b'', ''a''], DiskSizeMb = 10, DiskImage = [],
         DiskType = [], Scopes = None, TargetPool = [], Preemptible = False\<rparr>"
      by code_simp
    show ?thesis unfolding a b by (simp add: spec_equal_def elements_def add_mset_commute)
  qed
  have r: "map_option instanceProperties (groups (demo_watched demo_ok) ''g'') =
     Some (demo_properties ''n1-standard-1'')"
   "map_sum id instanceProperties (validate (demo_lib None) (demo_watched demo_ok) demo_g5) =
     Inr (demo_properties ''n1-standard-1'')"
   "fst (CommitGroup (demo_lib None) demo_g5 False (demo_watched demo_ok)) =
     Inr ''Scaling group to 5 instance.''"
   "map_option createdTemplates (groups (demo_watched demo_ok) ''g'') = Some [''g-1'']"
   "map_option createdTemplates
     (groups (snd (CommitGroup (demo_lib None) demo_g5 False (demo_watched demo_ok))) ''g'') =
     Some [''g-1'', ''g-1'']"
   "calls (snd (CommitGroup (demo_lib None) demo_ba5 False (demo_tagged demo_ok))) =
     calls (demo_tagged demo_ok) @
     [CreateInstanceTemplate ''g-2''
        \<lparr>tmpl_Description = [], tmpl_MachineType = ''n1-standard-1'', tmpl_Network = ''default'',
         tmpl_Tags = Some [''a'', ''b''], tmpl_DiskSizeMb = 10, tmpl_DiskImage = [],
         tmpl_DiskType = [], tmpl_Scopes = None, tmpl_Preemptible = False,
         AutoDeleteDisk = True, ReuseExistingDisk = False, MetaData = []\<rparr>,
      ResizeInstanceGroupManager ''g'' 5]"
   "map_option currentTemplate
     (groups (snd (CommitGroup (demo_lib None) demo_ba5 False (demo_tagged demo_ok))) ''g'') =
     Some 2"
    by code_simp+
  from e r show ?thesis by blast
qed

text \<open>
  C3 as amended: a commit that is not a dry run, for a watched group whose new instance
  properties are equal to the stored ones for \<open>reflect.DeepEqual\<close> (every field of the
  struct, the order of \<open>Tags\<close> and \<open>Scopes\<close> included) and whose size differs, issues
  exactly one call, the resize to \<open>int64\<close> of the new size, and creates no template.
  If the driver accepts the resize, the commit returns its summary and stores the old
  settings with the name of the current template appended once more to the list of
  created templates, the template version unchanged. If the driver refuses it, the
  commit returns the driver's error and the registry is unchanged.
\<close>

theorem CommitGroup_size_only:
  assumes "groups p (ID config) = Some old"
    and "validate lib p config = Inr new"
    and "instanceProperties old = instanceProperties new"
    and "Size (Allocation (spec old)) \<noteq> Size (Allocation (spec new))"
    and "CommitGroup lib config False p = (r, p')"
  shows "calls p' = calls p @
       [ResizeInstanceGroupManager (ID config) (int64 (Size (Allocation (spec new))))] \<and>
     (case status (API p) (calls p)
             (ResizeInstanceGroupManager (ID config) (int64 (Size (Allocation (spec new))))) of
        None \<Rightarrow>
          r = Inr (''Scaling group to '' @ Sprintf_d (int64 (Size (Allocation (spec new)))) @
                   '' instance.'') \<and>
          groups p' = (groups p)(ID config \<mapsto>
            old\<lparr>createdTemplates := createdTemplates old @
                  [templateNameOf (ID config) (currentTemplate old)]\<rparr>)
      | Some e \<Rightarrow> r = Inl (Collaborator e) \<and> groups p' = groups p)"
proof -
  have plan: "CommitGroup_plan lib p config new md =
      [ResizeInstanceGroupManager (ID config) (int64 (Size (Allocation (spec new))))]" for md
    using plan_present [OF assms(1), of new lib md] assms(3,4) by simp
  have s: "CommitGroup_settings p config new =
      old\<lparr>createdTemplates := createdTemplates old @ [templateNameOf (ID config) (currentTemplate old)]\<rparr>"
    using plan_present [OF assms(1), of new lib "[]"] assms(3) by simp
  have nt: "\<not> createTemplate (CommitGroup_decide p config new False)"
    using decide_present [OF assms(1)] assms(3) by simp
  have ops: "operations (CommitGroup_decide p config new False) =
      [''Scaling group to '' @ Sprintf_d (int64 (Size (Allocation (spec new)))) @ '' instance.'']"
    using decide_present_operations [OF assms(1)] assms(3,4) by simp
  from assms(5) show ?thesis
  proof (cases rule: CommitGroup_real_cases)
    case (invalid err)
    with assms(2) show ?thesis by simp
  next
    case (metadata new' err)
    with assms(2) nt show ?thesis by simp
  next
    case (failed new' md err)
    with assms(2) have new': "new' = new" by simp
    from failed(3) have "API_call
        (ResizeInstanceGroupManager (ID config) (int64 (Size (Allocation (spec new))))) p =
        (Some err, p')"
      by (simp add: new' plan API_calls_single)
    with failed(4) show ?thesis by (auto simp: API_call_def)
  next
    case (succeeded new' md p1)
    with assms(2) have new': "new' = new" by simp
    from succeeded(3) have "API_call
        (ResizeInstanceGroupManager (ID config) (int64 (Size (Allocation (spec new))))) p =
        (None, p1)"
      by (simp add: new' plan API_calls_single)
    with succeeded(4,5) show ?thesis by (auto simp: API_call_def new' s ops)
  qed
qed

theorem CommitGroup_size_only_witness:
  "calls (snd (CommitGroup (demo_lib None) demo_g5 False (demo_watched demo_ok))) =
     calls (demo_watched demo_ok) @ [ResizeInstanceGroupManager ''g'' 5] \<and>
   fst (CommitGroup (demo_lib None) demo_g5 False (demo_watched demo_ok)) =
     Inr ''Scaling group to 5 instance.'' \<and>
   groups (snd (CommitGroup (demo_lib None) demo_g5 False (demo_watched demo_ok))) =
     (groups (demo_watched demo_ok))(''g'' \<mapsto>
        (the (groups (demo_watched demo_ok) ''g''))\<lparr>createdTemplates := [''g-1''] @ [''g-1'']\<rparr>) \<and>
   calls (snd (CommitGroup (demo_lib None) demo_g5 False (demo_watched demo_no_resize))) =
     calls (demo_watched demo_no_resize) @ [ResizeInstanceGroupManager ''g'' 5] \<and>
   fst (CommitGroup (demo_lib None) demo_g5 False (demo_watched demo_no_resize)) =
     Inl (Collaborator ''refused'') \<and>
   groups (snd (CommitGroup (demo_lib None) demo_g5 False (demo_watched demo_no_resize))) =
     groups (demo_watched demo_no_resize)"
proof -
  have i: "ID demo_g5 = ''g''" by (simp add: demo_g5_def)
  have t: "templateNameOf ''g'' 1 = ''g-1''" "Sprintf_d 5 = ''5''" by code_simp+
  have w1: "groups (demo_watched demo_ok) (ID demo_g5) = Some (the (groups (demo_watched demo_ok) ''g''))"
  proof -
    have "groups (demo_watched demo_ok) ''g'' \<noteq> None" by code_simp
    then show ?thesis by (simp add: i)
  qed
  have v1: "validate (demo_lib None) (demo_watched demo_ok) demo_g5 =
      Inr (projr (validate (demo_lib None) (demo_watched demo_ok) demo_g5))"
  proof -
    have "\<not> isl (validate (demo_lib None) (demo_watched demo_ok) demo_g5)" by code_simp
    then show ?thesis by simp
  qed
  have e1: "instanceProperties (the (groups (demo_watched demo_ok) ''g'')) =
      instanceProperties (projr (validate (demo_lib None) (demo_watched demo_ok) demo_g5))"
    by code_simp
  have n1: "Size (Allocation (spec (the (groups (demo_watched demo_ok) ''g'')))) \<noteq>
      Size (Allocation (spec (projr (validate (demo_lib None) (demo_watched demo_ok) demo_g5))))"
    by code_simp
  have c1: "CommitGroup (demo_lib None) demo_g5 False (demo_watched demo_ok) =
      (fst (CommitGroup (demo_lib None) demo_g5 False (demo_watched demo_ok)),
       snd (CommitGroup (demo_lib None) demo_g5 False (demo_watched demo_ok)))" by simp
  have z1: "int64 (Size (Allocation (spec (projr (validate (demo_lib None) (demo_watched demo_ok) demo_g5))))) = 5"
    by code_simp
  have o1: "createdTemplates (the (groups (demo_watched demo_ok) ''g'')) = [''g-1'']"
    "currentTemplate (the (groups (demo_watched demo_ok) ''g'')) = 1"
    by code_simp+
  have w2: "groups (demo_watched demo_no_resize) (ID demo_g5) = Some (the (groups (demo_watched demo_no_resize) ''g''))"
  proof -
    have "groups (demo_watched demo_no_resize) ''g'' \<noteq> None" by code_simp
    then show ?thesis by (simp add: i)
  qed
  have v2: "validate (demo_lib None) (demo_watched demo_no_resize) demo_g5 =
      Inr (projr (validate (demo_lib None) (demo_watched demo_no_resize) demo_g5))"
  proof -
    have "\<not> isl (validate (demo_lib None) (demo_watched demo_no_resize) demo_g5)" by code_simp
    then show ?thesis by simp
  qed
  have e2: "instanceProperties (the (groups (demo_watched demo_no_resize) ''g'')) =
      instanceProperties (projr (validate (demo_lib None) (demo_watched demo_no_resize) demo_g5))"
    by code_simp
  have n2: "Size (Allocation (spec (the (groups (demo_watched demo_no_resize) ''g'')))) \<noteq>
      Size (Allocation (spec (projr (validate (demo_lib None) (demo_watched demo_no_resize) demo_g5))))"
    by code_simp
  have c2: "CommitGroup (demo_lib None) demo_g5 False (demo_watched demo_no_resize) =
      (fst (CommitGroup (demo_lib None) demo_g5 False (demo_watched demo_no_resize)),
       snd (CommitGroup (demo_lib None) demo_g5 False (demo_watched demo_no_resize)))" by simp
  have z2: "int64 (Size (Allocation (spec (projr (validate (demo_lib None) (demo_watched demo_no_resize) demo_g5))))) = 5"
    by code_simp
  have o2: "createdTemplates (the (groups (demo_watched demo_no_resize) ''g'')) = [''g-1'']"
    "currentTemplate (the (groups (demo_watched demo_no_resize) ''g'')) = 1"
    by code_simp+
  have s1: "status (API (demo_watched demo_ok)) (calls (demo_watched demo_ok))
      (ResizeInstanceGroupManager ''g'' 5) = None" by code_simp
  have s2: "status (API (demo_watched demo_no_resize)) (calls (demo_watched demo_no_resize))
      (ResizeInstanceGroupManager ''g'' 5) = Some ''refused''" by code_simp
  have r1: "calls (snd (CommitGroup (demo_lib None) demo_g5 False (demo_watched demo_ok))) =
     calls (demo_watched demo_ok) @ [ResizeInstanceGroupManager ''g'' 5] \<and>
   fst (CommitGroup (demo_lib None) demo_g5 False (demo_watched demo_ok)) =
     Inr ''Scaling group to 5 instance.'' \<and>
   groups (snd (CommitGroup (demo_lib None) demo_g5 False (demo_watched demo_ok))) =
     (groups (demo_watched demo_ok))(''g'' \<mapsto>
        (the (groups (demo_watched demo_ok) ''g''))\<lparr>createdTemplates := [''g-1''] @ [''g-1'']\<rparr>)"
    using CommitGroup_size_only [OF w1 v1 e1 n1 c1] by (simp add: i z1 o1 t s1)
  have r2: "calls (snd (CommitGroup (demo_lib None) demo_g5 False (demo_watched demo_no_resize))) =
     calls (demo_watched demo_no_resize) @ [ResizeInstanceGroupManager ''g'' 5] \<and>
   fst (CommitGroup (demo_lib None) demo_g5 False (demo_watched demo_no_resize)) =
     Inl (Collaborator ''refused'') \<and>
   groups (snd (CommitGroup (demo_lib None) demo_g5 False (demo_watched demo_no_resize))) =
     groups (demo_watched demo_no_resize)"
    using CommitGroup_size_only [OF w2 v2 e2 n2 c2] by (simp add: i z2 o2 t s2)
  from r1 r2 show ?thesis by blast
qed

subsection \<open>C4: the history of created templates\<close>



subsection \<open>C5: a failing driver call\<close>

text \<open>
  C5: if a call made on the driver during a commit that is not a dry run fails, the
  commit returns that very error, makes no further call, and leaves the registry as it
  was; the calls made before the failing one stay made (the log ends with them and the
  failing call, nothing undoes them).
\<close>

theorem CommitGroup_failure:
  assumes "CommitGroup lib config False p = (r, p')"
    and "calls p' = calls p @ pre @ c # post"
    and "status (API p) (calls p @ pre) c = Some e"
  shows "r = Inl (Collaborator e) \<and> post = [] \<and> groups p' = groups p \<and>
         calls p' = calls p @ pre @ [c]"
  using assms(1)
proof (cases rule: CommitGroup_real_cases)
  case (invalid err)
  with assms(2) show ?thesis by simp
next
  case (metadata new err)
  with assms(2) show ?thesis by simp
next
  case (failed new md err)
  from API_calls_failed [OF failed(3) assms(2,3)] failed(4) show ?thesis by simp
next
  case (succeeded new md p1)
  from succeeded(5) assms(2) have "calls p1 = calls p @ pre @ c # post" by simp
  from API_calls_failed [OF succeeded(3) this assms(3)] show ?thesis by simp
qed

theorem CommitGroup_failure_witness:
  "calls (snd (CommitGroup (demo_lib None) demo_g5' False (demo_watched demo_no_resize))) =
     calls (demo_watched demo_no_resize) @
     [CreateInstanceTemplate ''g-2''
        (templateSettings (demo_lib None) (the (groups (demo_watched demo_no_resize) ''g'')) [])] @
     ResizeInstanceGroupManager ''g'' 5 # [] \<and>
   status (API (demo_watched demo_no_resize))
     (calls (demo_watched demo_no_resize) @
      [CreateInstanceTemplate ''g-2''
        (templateSettings (demo_lib None) (the (groups (demo_watched demo_no_resize) ''g'')) [])])
     (ResizeInstanceGroupManager ''g'' 5) = Some ''refused'' \<and>
   fst (CommitGroup (demo_lib None) demo_g5' False (demo_watched demo_no_resize)) =
     Inl (Collaborator ''refused'') \<and>
   groups (snd (CommitGroup (demo_lib None) demo_g5' False (demo_watched demo_no_resize))) =
     groups (demo_watched demo_no_resize)"
proof -
  have h1: "CommitGroup (demo_lib None) demo_g5' False (demo_watched demo_no_resize) =
      (fst (CommitGroup (demo_lib None) demo_g5' False (demo_watched demo_no_resize)),
       snd (CommitGroup (demo_lib None) demo_g5' False (demo_watched demo_no_resize)))" by simp
  have h2: "calls (snd (CommitGroup (demo_lib None) demo_g5' False (demo_watched demo_no_resize))) =
     calls (demo_watched demo_no_resize) @
     [CreateInstanceTemplate ''g-2''
        (templateSettings (demo_lib None) (the (groups (demo_watched demo_no_resize) ''g'')) [])] @
     ResizeInstanceGroupManager ''g'' 5 # []"
    by code_simp
  have h3: "status (API (demo_watched demo_no_resize))
     (calls (demo_watched demo_no_resize) @
      [CreateInstanceTemplate ''g-2''
        (templateSettings (demo_lib None) (the (groups (demo_watched demo_no_resize) ''g'')) [])])
     (ResizeInstanceGroupManager ''g'' 5) = Some ''refused''"
    by code_simp
  from CommitGroup_failure [OF h1 h2 h3] h2 h3 show ?thesis by simp
qed

subsection \<open>C6: the order of destruction\<close>

text \<open>
  C6: on a watched group \<open>DestroyGroup\<close> sets out to delete the manager first and then
  every created template in the order of the list (\<open>DestroyGroup_calls\<close>). If it
  returns no error, all these calls were made, each succeeded, and the group has left
  the registry. If it returns an error, the calls made are those up to a call that
  failed, the error is that call's, and the registry is as it was.
\<close>

theorem DestroyGroup_order:
  assumes "groups p gid = Some s" and "DestroyGroup gid p = (r, p')"
  shows "case r of
      None \<Rightarrow>
        calls p' = calls p @ DestroyGroup_calls gid s \<and> groups p' = (groups p)(gid := None) \<and>
        (\<forall>n<length (DestroyGroup_calls gid s).
           status (API p) (calls p @ take n (DestroyGroup_calls gid s))
             (DestroyGroup_calls gid s ! n) = None)
    | Some err \<Rightarrow>
        groups p' = groups p \<and>
        (\<exists>n e. n < length (DestroyGroup_calls gid s) \<and>
           calls p' = calls p @ take (Suc n) (DestroyGroup_calls gid s) \<and>
           status (API p) (calls p @ take n (DestroyGroup_calls gid s))
             (DestroyGroup_calls gid s ! n) = Some e \<and>
           err = Collaborator e)"
proof (cases "API_calls (DestroyGroup_calls gid s) p")
  case (Pair res p1)
  show ?thesis
  proof (cases res)
    case None
    with Pair assms have r: "r = None" and p': "p' = p1\<lparr>groups := (groups p1)(gid := None)\<rparr>"
      by (simp_all add: DestroyGroup_watched)
    from API_calls_None [OF Pair [unfolded None]] r p' show ?thesis by simp
  next
    case (Some err)
    with Pair assms have r: "r = Some err" and p': "p' = p1"
      by (simp_all add: DestroyGroup_watched)
    from API_calls_Some [OF Pair [unfolded Some]] obtain n e where
      "n < length (DestroyGroup_calls gid s)"
      "p1 = p\<lparr>calls := calls p @ take (Suc n) (DestroyGroup_calls gid s)\<rparr>"
      "status (API p) (calls p @ take n (DestroyGroup_calls gid s)) (DestroyGroup_calls gid s ! n) = Some e"
      "err = Collaborator e"
      by blast
    with r p' show ?thesis by auto
  qed
qed

theorem DestroyGroup_order_witness:
  "fst (DestroyGroup ''g'' (demo_watched demo_no_template_delete)) = Some (Collaborator ''refused'') \<and>
   groups (snd (DestroyGroup ''g'' (demo_watched demo_no_template_delete))) =
     groups (demo_watched demo_no_template_delete) \<and>
   fst (DestroyGroup ''g'' (demo_watched demo_ok)) = None \<and>
   calls (snd (DestroyGroup ''g'' (demo_watched demo_ok))) =
     calls (demo_watched demo_ok) @ [DeleteInstanceGroupManager ''g'', DeleteInstanceTemplate ''g-1''] \<and>
   groups (snd (DestroyGroup ''g'' (demo_watched demo_ok))) =
     (groups (demo_watched demo_ok))(''g'' := None)"
proof -
  have "groups (demo_watched demo_no_template_delete) ''g'' \<noteq> None" by code_simp
  then have w1: "groups (demo_watched demo_no_template_delete) ''g'' =
      Some (the (groups (demo_watched demo_no_template_delete) ''g''))" by simp
  have r1: "fst (DestroyGroup ''g'' (demo_watched demo_no_template_delete)) =
      Some (Collaborator ''refused'')" by code_simp
  then have d1: "DestroyGroup ''g'' (demo_watched demo_no_template_delete) =
      (Some (Collaborator ''refused''), snd (DestroyGroup ''g'' (demo_watched demo_no_template_delete)))"
    by (simp add: prod_eq_iff)
  have "groups (demo_watched demo_ok) ''g'' \<noteq> None" by code_simp
  then have w2: "groups (demo_watched demo_ok) ''g'' =
      Some (the (groups (demo_watched demo_ok) ''g''))" by simp
  have r2: "fst (DestroyGroup ''g'' (demo_watched demo_ok)) = None" by code_simp
  then have d2: "DestroyGroup ''g'' (demo_watched demo_ok) =
      (None, snd (DestroyGroup ''g'' (demo_watched demo_ok)))"
    by (simp add: prod_eq_iff)
  have l: "DestroyGroup_calls ''g'' (the (groups (demo_watched demo_ok) ''g'')) =
      [DeleteInstanceGroupManager ''g'', DeleteInstanceTemplate ''g-1'']" by code_simp
  from DestroyGroup_order [OF w1 d1] DestroyGroup_order [OF w2 d2] r1 r2 show ?thesis
    by (simp add: l)
qed

subsection \<open>C7: validation\<close>

text \<open>
  C7 says that an allocation whose \<open>LogicalIDs\<close> is empty or absent passes the check
  of the logical IDs. The check is \<open>spec.Allocation.LogicalIDs != nil\<close>: the same
  group spec is accepted when the parser reports a \<open>nil\<close> slice and rejected when it
  reports an empty one.
\<close>

theorem empty_LogicalIDs_counterexample:
  "map_sum id currentTemplate (validate (demo_lib None) (demo_plugin demo_ok) demo_g3) = Inr 1 \<and>
   validate (demo_lib (Some [])) (demo_plugin demo_ok) demo_g3 = Inl LogicalIDsNotSupported"
  by code_simp

text \<open>
  C7 as amended: \<open>validate\<close> fails on a blank group ID and, once the group's properties
  are parsed, on a \<open>LogicalIDs\<close> slice that is not \<open>nil\<close> (an empty one included), on an
  allocation size \<open>\<le> 0\<close>, on a flavor plugin that the lookup does not find and on a
  flavor that rejects the allocation; only a \<open>nil\<close> slice passes the check of the
  logical IDs. Whenever \<open>validate\<close> fails, \<open>CommitGroup\<close> returns its error and the
  plugin (registry and log of driver calls) is as before.
\<close>

theorem validate_rejects:
  "(ID gspec = [] \<longrightarrow> validate lib p gspec = Inl BlankGroupID) \<and>
   (\<forall>parsed. ParseProperties lib gspec = Inr parsed \<longrightarrow>
      (LogicalIDs (Allocation parsed) \<noteq> None \<longrightarrow> isl (validate lib p gspec)) \<and>
      (Size (Allocation parsed) \<le> 0 \<longrightarrow> isl (validate lib p gspec)) \<and>
      (isl (flavorPlugins p (Plugin (Flavor parsed))) \<longrightarrow> isl (validate lib p gspec)) \<and>
      (\<forall>flavor e. flavorPlugins p (Plugin (Flavor parsed)) = Inr flavor \<and>
           Validate flavor (plugin_Properties (Flavor parsed)) (Allocation parsed) = Some e \<longrightarrow>
           isl (validate lib p gspec)) \<and>
      (ID gspec \<noteq> [] \<and> LogicalIDs (Allocation parsed) \<noteq> None \<longrightarrow>
         validate lib p gspec = Inl LogicalIDsNotSupported) \<and>
      (LogicalIDs (Allocation parsed) = None \<longrightarrow>
         validate lib p gspec \<noteq> Inl LogicalIDsNotSupported)) \<and>
   (\<forall>err. validate lib p gspec = Inl err \<longrightarrow> CommitGroup lib gspec pretend p = (Inl err, p))"
  by (auto simp: validate_def CommitGroup_invalid split: sum.splits option.splits)

theorem validate_rejects_witness:
  "validate (demo_lib None) (demo_plugin demo_ok) \<lparr>ID = [], group_Properties = ''+++n1-standard-1''\<rparr> =
     Inl BlankGroupID \<and>
   validate (demo_lib (Some [''a''])) (demo_plugin demo_ok) demo_g3 = Inl LogicalIDsNotSupported \<and>
   validate (demo_lib (Some [])) (demo_plugin demo_ok) demo_g3 = Inl LogicalIDsNotSupported \<and>
   validate (demo_lib None) (demo_plugin demo_ok) demo_g3 \<noteq> Inl LogicalIDsNotSupported \<and>
   isl (validate (demo_lib None) (demo_plugin demo_ok) \<lparr>ID = ''g'', group_Properties = ''n1-standard-1''\<rparr>) \<and>
   isl (validate (demo_lib None)
     ((demo_plugin demo_ok)\<lparr>flavorPlugins := Inl\<rparr>) demo_g3) \<and>
   isl (validate (demo_lib None)
     ((demo_plugin demo_ok)\<lparr>flavorPlugins := (\<lambda>name. Inr (demo_flavor\<lparr>Validate := (\<lambda>props alloc. Some ''rejected'')\<rparr>))\<rparr>)
     demo_g3) \<and>
   CommitGroup (demo_lib (Some [])) demo_g3 False (demo_plugin demo_ok) =
     (Inl LogicalIDsNotSupported, demo_plugin demo_ok)"
proof -
  have parse: "ParseProperties (demo_lib ids) demo_g3 =
      Inr \<lparr>Instance = \<lparr>Plugin = ''instance-gcp'', plugin_Properties = ''n1-standard-1''\<rparr>,
           Flavor = \<lparr>Plugin = ''flavor-vanilla'', plugin_Properties = []\<rparr>,
           Allocation = \<lparr>Size = 3, LogicalIDs = ids\<rparr>\<rparr>" for ids
    by (simp add: demo_lib_def demo_g3_def demo_size_def)
  have parse0: "ParseProperties (demo_lib None) \<lparr>ID = ''g'', group_Properties = ''n1-standard-1''\<rparr> =
      Inr \<lparr>Instance = \<lparr>Plugin = ''instance-gcp'', plugin_Properties = ''n1-standard-1''\<rparr>,
           Flavor = \<lparr>Plugin = ''flavor-vanilla'', plugin_Properties = []\<rparr>,
           Allocation = \<lparr>Size = 0, LogicalIDs = None\<rparr>\<rparr>"
    by (simp add: demo_lib_def demo_size_def)
  have i: "ID demo_g3 \<noteq> []" by (simp add: demo_g3_def)
  have c1: "validate (demo_lib None) (demo_plugin demo_ok)
      \<lparr>ID = [], group_Properties = ''+++n1-standard-1''\<rparr> = Inl BlankGroupID"
    using validate_rejects [where gspec = "\<lparr>ID = [], group_Properties = ''+++n1-standard-1''\<rparr>"
        and lib = "demo_lib None" and p = "demo_plugin demo_ok"]
    by simp
  have c2: "validate (demo_lib (Some [''a''])) (demo_plugin demo_ok) demo_g3 = Inl LogicalIDsNotSupported"
    using validate_rejects [where gspec = demo_g3 and lib = "demo_lib (Some [''a''])"
        and p = "demo_plugin demo_ok"] parse [of "Some [''a'']"] i
    by simp
  have c3: "validate (demo_lib (Some [])) (demo_plugin demo_ok) demo_g3 = Inl LogicalIDsNotSupported"
    using validate_rejects [where gspec = demo_g3 and lib = "demo_lib (Some [])"
        and p = "demo_plugin demo_ok"] parse [of "Some []"] i
    by simp
  have c4: "validate (demo_lib None) (demo_plugin demo_ok) demo_g3 \<noteq> Inl LogicalIDsNotSupported"
    using validate_rejects [where gspec = demo_g3 and lib = "demo_lib None"
        and p = "demo_plugin demo_ok"] parse [of None]
    by simp
  have c5: "isl (validate (demo_lib None) (demo_plugin demo_ok)
      \<lparr>ID = ''g'', group_Properties = ''n1-standard-1''\<rparr>)"
    using validate_rejects [where gspec = "\<lparr>ID = ''g'', group_Properties = ''n1-standard-1''\<rparr>"
        and lib = "demo_lib None" and p = "demo_plugin demo_ok"] parse0
    by simp
  have c6: "isl (validate (demo_lib None) ((demo_plugin demo_ok)\<lparr>flavorPlugins := Inl\<rparr>) demo_g3)"
    using validate_rejects [where gspec = demo_g3 and lib = "demo_lib None"
        and p = "(demo_plugin demo_ok)\<lparr>flavorPlugins := Inl\<rparr>"] parse [of None]
    by simp
  have c7: "isl (validate (demo_lib None)
     ((demo_plugin demo_ok)\<lparr>flavorPlugins := (\<lambda>name. Inr (demo_flavor\<lparr>Validate := (\<lambda>props alloc. Some ''rejected'')\<rparr>))\<rparr>)
     demo_g3)"
    using validate_rejects [where gspec = demo_g3 and lib = "demo_lib None"
        and p = "(demo_plugin demo_ok)\<lparr>flavorPlugins := (\<lambda>name. Inr (demo_flavor\<lparr>Validate := (\<lambda>props alloc. Some ''rejected'')\<rparr>))\<rparr>"]
      parse [of None]
    by simp
  have c8: "CommitGroup (demo_lib (Some [])) demo_g3 False (demo_plugin demo_ok) =
     (Inl LogicalIDsNotSupported, demo_plugin demo_ok)"
    using validate_rejects [where gspec = demo_g3 and lib = "demo_lib (Some [])"
        and p = "demo_plugin demo_ok" and pretend = False] c3
    by simp
  from c1 c2 c3 c4 c5 c6 c7 c8 show ?thesis by blast
qed

subsection \<open>C8: convergence\<close>

text \<open>
  C8: when \<open>DescribeGroup\<close> on a watched group returns a description, \<open>Converged\<close> is
  true if and only if the number of members that the driver's list call returned
  equals the allocation size stored in the registry for the group. (A Go slice has
  fewer than \<open>2^63\<close> elements.)
\<close>

theorem DescribeGroup_converged:
  assumes "groups p gid = Some s"
    and "DescribeGroup lib gid p = (Inr d, p')"
    and "listing (API p) (calls p) gid = Inr members"
    and "length members < 2 ^ 63"
  shows "Converged d = (length members = unat (Size (Allocation (spec s))))"
proof -
  from assms(1,2,3) have c: "Converged d =
      ((word_of_nat (length members) :: 64 word) = Size (Allocation (spec s)))"
    by (auto simp: DescribeGroup_def API_ListInstanceGroupInstances_def
          split: sum.splits prod.splits)
  from assms(4) have u: "unat (word_of_nat (length members) :: 64 word) = length members"
    by (simp add: unat_of_nat)
  show ?thesis unfolding c word_unat_eq_iff u ..
qed

theorem DescribeGroup_converged_witness:
  "listing (API (demo_watched demo_ok)) (calls (demo_watched demo_ok)) ''g'' =
     Inr [\<lparr>member_Instance = ''zones/z/instances/g-a''\<rparr>,
          \<lparr>member_Instance = ''zones/z/instances/g-b''\<rparr>,
          \<lparr>member_Instance = ''zones/z/instances/g-c''\<rparr>] \<and>
   map_option (unat \<circ> Size \<circ> Allocation \<circ> spec) (groups (demo_watched demo_ok) ''g'') = Some 3 \<and>
   Converged (projr (fst (DescribeGroup (demo_lib None) ''g'' (demo_watched demo_ok))))"
proof -
  have "groups (demo_watched demo_ok) ''g'' \<noteq> None" by code_simp
  then have w: "groups (demo_watched demo_ok) ''g'' =
      Some (the (groups (demo_watched demo_ok) ''g''))" by simp
  have "\<not> isl (fst (DescribeGroup (demo_lib None) ''g'' (demo_watched demo_ok)))" by code_simp
  then have d: "DescribeGroup (demo_lib None) ''g'' (demo_watched demo_ok) =
      (Inr (projr (fst (DescribeGroup (demo_lib None) ''g'' (demo_watched demo_ok)))),
       snd (DescribeGroup (demo_lib None) ''g'' (demo_watched demo_ok)))"
    by (simp add: prod_eq_iff)
  have l: "listing (API (demo_watched demo_ok)) (calls (demo_watched demo_ok)) ''g'' =
     Inr [\<lparr>member_Instance = ''zones/z/instances/g-a''\<rparr>,
          \<lparr>member_Instance = ''zones/z/instances/g-b''\<rparr>,
          \<lparr>member_Instance = ''zones/z/instances/g-c''\<rparr>]" by code_simp
  have b: "length [\<lparr>member_Instance = ''zones/z/instances/g-a''\<rparr>,
          \<lparr>member_Instance = ''zones/z/instances/g-b''\<rparr>,
          \<lparr>member_Instance = ''zones/z/instances/g-c''\<rparr>] < 2 ^ 63" by simp
  have z: "unat (Size (Allocation (spec (the (groups (demo_watched demo_ok) ''g''))))) = 3"
    by code_simp
  from DescribeGroup_converged [OF w d l b] l w z show ?thesis
    by (metis comp_apply length_Cons list.size(3) numeral_3_eq_3 option.map(2))
qed

subsection \<open>C9: SetInstanceTemplate is never called\<close>

text \<open>
  C9: whatever the spec, the \<open>pretend\<close> flag and the state of the plugin, the flag
  \<open>updateManager\<close> is false after the first half of \<open>CommitGroup\<close>, and among the
  calls that \<open>CommitGroup\<close> adds to the log there is no \<open>SetInstanceTemplate\<close>.
\<close>

theorem CommitGroup_never_sets_template:
  "\<not> updateManager (CommitGroup_decide p config new pretend) \<and>
   (\<exists>issued. calls (snd (CommitGroup lib config pretend p)) = calls p @ issued \<and>
      filter is_SetInstanceTemplate issued = [])"
proof -
  have "\<exists>issued. calls (snd (CommitGroup lib config pretend p)) = calls p @ issued \<and>
      filter is_SetInstanceTemplate issued = []"
  proof (cases pretend)
    case True
    then show ?thesis
      by (cases "validate lib p config") (simp_all add: CommitGroup_invalid CommitGroup_pretend)
  next
    case False
    obtain r p' where c: "CommitGroup lib config False p = (r, p')"
      by (cases "CommitGroup lib config False p")
    then have "\<exists>issued. calls p' = calls p @ issued \<and> filter is_SetInstanceTemplate issued = []"
    proof (cases rule: CommitGroup_real_cases)
      case (failed new' md err)
      from failed(3) obtain n where
        "p' = p\<lparr>calls := calls p @ take n (CommitGroup_plan lib p config new' md)\<rparr>"
        using API_calls_frame by blast
      then show ?thesis
        by (simp add: filter_take_Nil plan_no_SetInstanceTemplate)
    next
      case (succeeded new' md p1)
      from succeeded(3) have "p1 = p\<lparr>calls := calls p @ CommitGroup_plan lib p config new' md\<rparr>"
        using API_calls_None by blast
      with succeeded(5) show ?thesis by (simp add: plan_no_SetInstanceTemplate)
    qed simp_all
    with c False show ?thesis by simp
  qed
  then show ?thesis by (simp add: decide_updateManager)
qed

subsection \<open>C10: a dry run makes an unknown group watched\<close>

text \<open>
  C10: a dry run of a group ID that is not in the registry, with a spec that validates,
  makes no driver call and yet stores an entry for the ID, with template version 1 and
  no created template; \<open>FreeGroup\<close> then succeeds on that ID, and \<open>DescribeGroup\<close> and
  \<open>DestroyGroup\<close> do not answer that the group is not watched.
\<close>

theorem dry_run_watches:
  assumes "groups p (ID config) = None"
    and "validate lib p config = Inr new"
    and "CommitGroup lib config True p = (r, p')"
  shows "r = Inr (''Managing '' @ Sprintf_d (int64 (Size (Allocation (spec new)))) @ '' instances'') \<and>
     calls p' = calls p \<and>
     (\<exists>s. groups p' (ID config) = Some s \<and> currentTemplate s = 1 \<and> createdTemplates s = []) \<and>
     fst (FreeGroup (ID config) p') = None \<and>
     fst (DescribeGroup lib (ID config) p') \<noteq> Inl (NotWatched (ID config)) \<and>
     fst (DestroyGroup (ID config) p') \<noteq> Some (NotWatched (ID config))"
proof -
  from assms have r: "r = Inr (''Managing '' @ Sprintf_d (int64 (Size (Allocation (spec new)))) @ '' instances'')"
    and p': "p' = p\<lparr>groups := (groups p)(ID config \<mapsto> new)\<rparr>"
    by (simp_all add: CommitGroup_pretend decide_absent)
  from p' have g: "groups p' (ID config) = Some new" by simp
  have d: "fst (DescribeGroup lib (ID config) p') \<noteq> Inl (NotWatched (ID config))"
    using DescribeGroup_error [OF g, of lib] by (cases "DescribeGroup lib (ID config) p'") auto
  have x: "fst (DestroyGroup (ID config) p') \<noteq> Some (NotWatched (ID config))"
    using DestroyGroup_error [OF g] by (cases "DestroyGroup (ID config) p'") auto
  from r p' g d x validate_fresh [OF assms(2)] show ?thesis
    by (simp add: FreeGroup_def)
qed

theorem dry_run_watches_witness:
  "groups (demo_plugin demo_ok) ''g'' = None \<and>
   calls (snd (CommitGroup (demo_lib None) demo_g3 True (demo_plugin demo_ok))) =
     calls (demo_plugin demo_ok) \<and>
   (\<exists>s. groups (snd (CommitGroup (demo_lib None) demo_g3 True (demo_plugin demo_ok))) ''g'' = Some s \<and>
      currentTemplate s = 1 \<and> createdTemplates s = []) \<and>
   fst (FreeGroup ''g'' (snd (CommitGroup (demo_lib None) demo_g3 True (demo_plugin demo_ok)))) = None \<and>
   fst (DescribeGroup (demo_lib None) ''g''
     (snd (CommitGroup (demo_lib None) demo_g3 True (demo_plugin demo_ok)))) \<noteq> Inl (NotWatched ''g'') \<and>
   fst (DestroyGroup ''g'' (snd (CommitGroup (demo_lib None) demo_g3 True (demo_plugin demo_ok)))) \<noteq>
     Some (NotWatched ''g'')"
proof -
  have i: "ID demo_g3 = ''g''" by (simp add: demo_g3_def)
  have a: "groups (demo_plugin demo_ok) (ID demo_g3) = None" by (simp add: demo_plugin_def)
  have "\<not> isl (validate (demo_lib None) (demo_plugin demo_ok) demo_g3)" by code_simp
  then have v: "validate (demo_lib None) (demo_plugin demo_ok) demo_g3 =
      Inr (projr (validate (demo_lib None) (demo_plugin demo_ok) demo_g3))" by simp
  have c: "CommitGroup (demo_lib None) demo_g3 True (demo_plugin demo_ok) =
      (fst (CommitGroup (demo_lib None) demo_g3 True (demo_plugin demo_ok)),
       snd (CommitGroup (demo_lib None) demo_g3 True (demo_plugin demo_ok)))" by simp
  from dry_run_watches [OF a v c] a show ?thesis by (simp add: i)
qed

end
